theory Spec2Isabelle
  imports Complex_Main "HOL-Library.Multiset" "HOL-Library.Product_Lexorder"
begin

section \<open>Data model\<close>

text \<open>
  The diagram builder works on \<^verbatim>\<open>float64\<close> coordinates. They are modelled as
  \<^typ>\<open>real\<close>: the properties below only compare, add and subtract coordinates.

  A lifeline is identified in the Go code by the address of its \<^verbatim>\<open>*dsl.Statement\<close>
  (maps are keyed on the pointer, and the tests build three distinct lifelines from
  three empty statements). The address is modelled as a natural number.
\<close>

type_synonym StatementRef = nat

text \<open>\<^verbatim>\<open>geom.Segment\<close>: the fields \<^verbatim>\<open>Start\<close> and \<^verbatim>\<open>End\<close> are read by
  \<^verbatim>\<open>finalizeOne\<close>; the constructor \<^verbatim>\<open>geom.NewSegment(start, end)\<close> is used by the
  interactions maker and by the tests.\<close>

record Segment =
  Start :: real
  End :: real

definition NewSegment :: "real \<Rightarrow> real \<Rightarrow> Segment" where
  "NewSegment s e = \<lparr>Start = s, End = e\<rparr>"

definition Length :: "Segment \<Rightarrow> real" where
  "Length s = End s - Start s"

text \<open>Errors. Go's \<^verbatim>\<open>fmt.Errorf("prefix: %v", err)\<close> is \<open>Wrapped ''prefix'' err\<close>.
  A run-time panic (an index out of range, a method called through the nil pointer
  that a map returns for a missing key) is \<open>Panic\<close>. A panic is not an error value
  of the Go code: nothing recovers it, so it leaves every enclosing function as it
  is, and no caller wraps it.\<close>

datatype error =
    InvalidState
  | CentreLineError
  | Wrapped string error
  | Panic

subsection \<open>Box tracker\<close>

text \<open>Modelled from the spec: the type \<^verbatim>\<open>lifeline.BoxTracker\<close> and its methods
  \<^verbatim>\<open>HasABoxInProgress\<close>, \<^verbatim>\<open>AddStartingAt\<close>, \<^verbatim>\<open>TerminateAt\<close> and the extents it
  hands to the segment assembler are called from the sources but are not among
  them. Section 4.1 of the specification: an ordered sequence of extents, whose end
  is undefined until the box is terminated.\<close>

record ActivityBoxExtent =
  boxStart :: real
  boxEnd :: "real option"

type_synonym BoxTracker = "ActivityBoxExtent list"

text \<open>Modelled from the spec: \<^verbatim>\<open>NewBoxTracker()\<close>, used by the tests and the callers, is
  a tracker without extents.\<close>

definition NewBoxTracker :: BoxTracker where
  "NewBoxTracker = []"

text \<open>Modelled from the spec: \<^verbatim>\<open>HasBoxInProgress\<close> is true iff the most recently added
  extent has no end.\<close>

definition HasABoxInProgress :: "BoxTracker \<Rightarrow> bool" where
  "HasABoxInProgress bt = (case rev bt of [] \<Rightarrow> False | b # _ \<Rightarrow> boxEnd b = None)"

text \<open>Modelled from the spec: \<^verbatim>\<open>AddStartingAt(y)\<close> appends a new extent with start
  \<open>y\<close> and no end; it fails with \<open>InvalidState\<close> if a box is already in progress.\<close>

definition AddStartingAt :: "real \<Rightarrow> BoxTracker \<Rightarrow> error + BoxTracker" where
  "AddStartingAt y bt =
     (if HasABoxInProgress bt then Inl InvalidState
      else Inr (bt @ [\<lparr>boxStart = y, boxEnd = None\<rparr>]))"

text \<open>Modelled from the spec: \<^verbatim>\<open>TerminateAt(y)\<close> sets the end of the in-progress extent;
  it fails with \<open>InvalidState\<close> if none is in progress, or if \<open>y\<close> is less than the
  start of that extent.\<close>

definition TerminateAt :: "real \<Rightarrow> BoxTracker \<Rightarrow> error + BoxTracker" where
  "TerminateAt y bt =
     (case rev bt of
        [] \<Rightarrow> Inl InvalidState
      | b # earlier \<Rightarrow>
          (if boxEnd b \<noteq> None then Inl InvalidState
           else if y < boxStart b then Inl InvalidState
           else Inr (rev earlier @ [b\<lparr>boxEnd := Some y\<rparr>])))"

text \<open>Modelled from the spec: \<^verbatim>\<open>Extents()\<close> is all boxes with defined ends at call time,
  in order; boxes in progress are left out.\<close>

fun Extents :: "BoxTracker \<Rightarrow> Segment list" where
  "Extents [] = []"
| "Extents (b # bs) =
     (case boxEnd b of
        None \<Rightarrow> Extents bs
      | Some e \<Rightarrow> NewSegment (boxStart b) e # Extents bs)"

text \<open>The number of extents of a tracker that are in progress.\<close>

definition numInProgress :: "BoxTracker \<Rightarrow> nat" where
  "numInProgress bt = length (filter (\<lambda>b. boxEnd b = None) bt)"

subsection \<open>No-go zones\<close>

text \<open>Modelled from the spec: the package \<^verbatim>\<open>nogozone\<close> is not among the sources. A zone
  is a segment plus the two lifelines whose interaction it represents (section 3);
  \<^verbatim>\<open>nogozone.NewNoGoZone(segment, source, dest)\<close> is its constructor.\<close>

record NoGoZone =
  Height :: Segment
  Source :: StatementRef
  Dest :: StatementRef

definition NewNoGoZone :: "Segment \<Rightarrow> StatementRef \<Rightarrow> StatementRef \<Rightarrow> NoGoZone" where
  "NewNoGoZone seg a b = \<lparr>Height = seg, Source = a, Dest = b\<rparr>"

text \<open>Modelled from the spec: the index of a lifeline in the declared order (\<open>None\<close>
  when it is not declared).\<close>

fun indexOf :: "StatementRef \<Rightarrow> StatementRef list \<Rightarrow> nat option" where
  "indexOf l [] = None"
| "indexOf l (x # xs) =
     (if x = l then Some 0
      else (case indexOf l xs of None \<Rightarrow> None | Some i \<Rightarrow> Some (Suc i)))"

text \<open>Modelled from the spec: a zone applies to a lifeline when the horizontal span of
  the zone's lane pair, by index in the declared order, includes the lifeline's index
  (section 4.2).\<close>

definition spanIncludes :: "NoGoZone \<Rightarrow> StatementRef \<Rightarrow> StatementRef list \<Rightarrow> bool" where
  "spanIncludes z l allLifelines =
     (case (indexOf (Source z) allLifelines, indexOf (Dest z) allLifelines,
            indexOf l allLifelines) of
        (Some i, Some j, Some k) \<Rightarrow> min i j \<le> k \<and> k \<le> max i j
      | _ \<Rightarrow> False)"

text \<open>Modelled from the spec: \<^verbatim>\<open>ApplicableTo(lifeline, allLifelinesInOrder)\<close> filters the
  registered zones to the applicable ones and returns their segments, the pair tag
  discarded.\<close>

definition ApplicableTo :: "StatementRef \<Rightarrow> StatementRef list \<Rightarrow> NoGoZone list \<Rightarrow> Segment list" where
  "ApplicableTo l allLifelines zones =
     map Height (filter (\<lambda>z. spanIncludes z l allLifelines) zones)"

subsection \<open>Segment assembler\<close>

text \<open>Modelled from the spec: \<^verbatim>\<open>LifelineSegments.Assemble\<close> is called by
  \<^verbatim>\<open>Finalizer.finalizeOne\<close> and by the tests, but its body is not among the sources.
  The definitions follow the six steps of section 4.3.\<close>

text \<open>Modelled from the spec: step 1 of section 4.3, the occupied intervals of a
  lifeline: the segments of the applicable zones and the extents of its boxes.\<close>

definition occupied :: "StatementRef \<Rightarrow> NoGoZone list \<Rightarrow> BoxTracker \<Rightarrow> StatementRef list \<Rightarrow> Segment list" where
  "occupied l zones bt allLifelines = ApplicableTo l allLifelines zones @ Extents bt"

text \<open>Modelled from the spec: step 2, sort by start ascending, ties by end
  ascending.\<close>

definition sortSegs :: "Segment list \<Rightarrow> Segment list" where
  "sortSegs segs = sort_key (\<lambda>s. (Start s, End s)) segs"

text \<open>Modelled from the spec: step 3, merge overlapping or touching intervals: \<open>b\<close> with
  \<open>Start b \<le> End a\<close> is merged into \<open>[Start a, max (End a) (End b)]\<close>.\<close>

fun mergeSegs :: "Segment list \<Rightarrow> Segment list" where
  "mergeSegs [] = []"
| "mergeSegs [a] = [a]"
| "mergeSegs (a # b # rest) =
     (if Start b \<le> End a
      then mergeSegs (NewSegment (Start a) (max (End a) (End b)) # rest)
      else a # mergeSegs (b # rest))"

text \<open>Modelled from the spec: step 4, walk the merged intervals from the cursor (at
  first the top of the lifeline), emitting the candidate gap
  before each interval when the interval starts after the cursor, and the final
  candidate gap up to the bottom when the bottom lies after the cursor.\<close>

fun walkGaps :: "real \<Rightarrow> real \<Rightarrow> Segment list \<Rightarrow> Segment list" where
  "walkGaps cursor bottom [] =
     (if bottom > cursor then [NewSegment cursor bottom] else [])"
| "walkGaps cursor bottom (i # rest) =
     (if Start i > cursor then [NewSegment cursor (Start i)] else [])
       @ walkGaps (End i) bottom rest"

definition candidateGaps :: "StatementRef \<Rightarrow> real \<Rightarrow> real \<Rightarrow> NoGoZone list \<Rightarrow> BoxTracker \<Rightarrow> StatementRef list \<Rightarrow> Segment list" where
  "candidateGaps l topY bottomY zones bt allLifelines =
     walkGaps topY bottomY (mergeSegs (sortSegs (occupied l zones bt allLifelines)))"

text \<open>Modelled from the spec: steps 5 and 6, discard every candidate gap of length
  below \<open>minSegLen\<close> and return the others in order.\<close>

definition Assemble :: "StatementRef \<Rightarrow> real \<Rightarrow> real \<Rightarrow> real \<Rightarrow> NoGoZone list \<Rightarrow> BoxTracker \<Rightarrow> StatementRef list \<Rightarrow> Segment list" where
  "Assemble l topY bottomY minSegLen zones bt allLifelines =
     filter (\<lambda>g. \<not> Length g < minSegLen)
       (candidateGaps l topY bottomY zones bt allLifelines)"

text \<open>A point of the vertical axis lies in one of the half-open segments of a list.\<close>

definition inSegs :: "real \<Rightarrow> Segment list \<Rightarrow> bool" where
  "inSegs x segs = list_ex (\<lambda>s. Start s \<le> x \<and> x < End s) segs"

text \<open>The segments of a list are non-empty, in ascending order, and do not overlap.\<close>

definition ascending :: "Segment list \<Rightarrow> bool" where
  "ascending gs =
     (list_all (\<lambda>g. Start g < End g) gs \<and> sorted_wrt (\<lambda>a b. End a \<le> Start b) gs)"

section \<open>Statements and drawing primitives\<close>

text \<open>The keywords of the statement language (the string constants \<^verbatim>\<open>umli.Life\<close>,
  \<^verbatim>\<open>umli.Full\<close>, \<^verbatim>\<open>umli.Dash\<close>, \<^verbatim>\<open>umli.Self\<close>, \<^verbatim>\<open>umli.Stop\<close> and \<^verbatim>\<open>umli.Title\<close>).\<close>

datatype Keyword = Life | Full | Dash | Self | Stop | Title

record Statement =
  Keyword :: Keyword
  ReferencedLifelines :: "StatementRef list"
  LabelSegments :: "string list"

text \<open>\<^verbatim>\<open>s.ReferencedLifelines[i]\<close>: an index out of range panics.\<close>

definition refAt :: "Statement \<Rightarrow> nat \<Rightarrow> error + StatementRef" where
  "refAt s i =
     (if i < length (ReferencedLifelines s) then Inr (ReferencedLifelines s ! i)
      else Inl Panic)"

text \<open>Package \<^verbatim>\<open>graphics\<close>.\<close>

record Point =
  X :: real
  Y :: real

definition NewPoint :: "real \<Rightarrow> real \<Rightarrow> Point" where
  "NewPoint x y = \<lparr>X = x, Y = y\<rparr>"

record Line =
  P1 :: Point
  P2 :: Point
  Dashed :: bool

datatype Justification = Left | Right | Top | Bottom | Centre

record Label =
  TheString :: string
  FontHeight :: real
  Anchor :: Point
  HJust :: Justification
  VJust :: Justification

record Primitives =
  Lines :: "Line list"
  FilledPolys :: "Point list list"
  Labels :: "Label list"

definition NewPrimitives :: Primitives where
  "NewPrimitives = \<lparr>Lines = [], FilledPolys = [], Labels = []\<rparr>"

definition AddLine :: "real \<Rightarrow> real \<Rightarrow> real \<Rightarrow> real \<Rightarrow> bool \<Rightarrow> Primitives \<Rightarrow> Primitives" where
  "AddLine x1 y1 x2 y2 dashed p =
     p\<lparr>Lines := Lines p @ [\<lparr>P1 = \<lparr>X = x1, Y = y1\<rparr>, P2 = \<lparr>X = x2, Y = y2\<rparr>, Dashed = dashed\<rparr>]\<rparr>"

definition AddFilledPoly :: "Point list \<Rightarrow> Primitives \<Rightarrow> Primitives" where
  "AddFilledPoly vertices p = p\<lparr>FilledPolys := FilledPolys p @ [vertices]\<rparr>"

definition AddLabel :: "string \<Rightarrow> real \<Rightarrow> real \<Rightarrow> real \<Rightarrow> Justification \<Rightarrow> Justification \<Rightarrow> Primitives \<Rightarrow> Primitives" where
  "AddLabel theString fontHeight x y hJust vJust p =
     p\<lparr>Labels := Labels p @
        [\<lparr>TheString = theString, FontHeight = fontHeight, Anchor = \<lparr>X = x, Y = y\<rparr>,
          HJust = hJust, VJust = vJust\<rparr>]\<rparr>"

definition RowOfStrings :: "real \<Rightarrow> real \<Rightarrow> real \<Rightarrow> Justification \<Rightarrow> string list \<Rightarrow> Primitives \<Rightarrow> Primitives" where
  "RowOfStrings x firstRowY fontHeight hJust strings p =
     fold (\<lambda>(i, s). AddLabel s fontHeight x (firstRowY + real i * fontHeight) hJust Top)
       (enumerate 0 strings) p"

definition AddRect :: "real \<Rightarrow> real \<Rightarrow> real \<Rightarrow> real \<Rightarrow> Primitives \<Rightarrow> Primitives" where
  "AddRect left topY right botY p =
     AddLine left botY left topY False
       (AddLine right botY left botY False
         (AddLine right topY right botY False
           (AddLine left topY right topY False p)))"

text \<open>The functions of package \<^verbatim>\<open>geom\<close> that only shape what is drawn
  (\<^verbatim>\<open>geom.ShortenLineBy\<close>, \<^verbatim>\<open>geom.MakeArrow\<close>, and the label position of
  \<^verbatim>\<open>NewLabelPosn(fromX, toX).Get()\<close>) are not among the sources; they are parameters.\<close>

record Geom =
  ShortenLineBy :: "real \<Rightarrow> real \<times> real \<Rightarrow> real \<times> real"
  MakeArrow :: "real \<Rightarrow> real \<Rightarrow> real \<Rightarrow> real \<Rightarrow> real \<Rightarrow> Point list"
  LabelPosn :: "real \<Rightarrow> real \<Rightarrow> real \<times> Justification"

section \<open>The interactions maker\<close>

text \<open>\<^verbatim>\<open>lifeline.Spacing\<close> is not among the sources: its two methods are parameters.
  \<^verbatim>\<open>CentreLine\<close> yields the centre of a lifeline, or an error.\<close>

record Spacing =
  CentreLine :: "StatementRef \<Rightarrow> error + real"
  LifelinePitch :: real

text \<open>\<^verbatim>\<open>sizer.Sizer\<close> is used through \<^verbatim>\<open>Get(name)\<close> only. The map \<^verbatim>\<open>boxes\<close> holds one
  tracker per lifeline; the trackers are updated in place through their pointers,
  which the model writes as an update of the map.\<close>

record MakerDependencies =
  boxes :: "StatementRef \<rightharpoonup> BoxTracker"
  fontHt :: real
  sizer :: "string \<Rightarrow> real"
  spacer :: Spacing

record Maker =
  dependencies :: MakerDependencies
  graphicsModel :: Primitives
  noGoZones :: "NoGoZone list"

definition NewMakerDependencies :: "real \<Rightarrow> Spacing \<Rightarrow> (string \<Rightarrow> real) \<Rightarrow> (StatementRef \<rightharpoonup> BoxTracker) \<Rightarrow> MakerDependencies" where
  "NewMakerDependencies fh sp sz bx = \<lparr>boxes = bx, fontHt = fh, sizer = sz, spacer = sp\<rparr>"

definition NewMaker :: "MakerDependencies \<Rightarrow> Primitives \<Rightarrow> Maker" where
  "NewMaker d gm = \<lparr>dependencies = d, graphicsModel = gm, noGoZones = []\<rparr>"

text \<open>An action receives the maker and the current tidemark and returns the updated
  tidemark and maker, or an error. Next to an error the Go code returns \<open>-1\<close> in the
  place of the tidemark; the model returns the error alone.\<close>

type_synonym actionFn = "Maker \<Rightarrow> real \<Rightarrow> Statement \<Rightarrow> error + real \<times> Maker"

type_synonym dispatch = "actionFn \<times> Statement"

definition setBoxes :: "StatementRef \<Rightarrow> BoxTracker \<Rightarrow> Maker \<Rightarrow> Maker" where
  "setBoxes l bt mkr =
     mkr\<lparr>dependencies := (dependencies mkr)\<lparr>boxes := (boxes (dependencies mkr))(l \<mapsto> bt)\<rparr>\<rparr>"

definition LifelineCentres :: "Maker \<Rightarrow> StatementRef \<Rightarrow> StatementRef \<Rightarrow> error + real \<times> real" where
  "LifelineCentres mkr sourceLifeline destLifeline =
     (case CentreLine (spacer (dependencies mkr)) sourceLifeline of
        Inl err \<Rightarrow> Inl (Wrapped ''space.CentreLine'' err)
      | Inr fromCentre \<Rightarrow>
          (case CentreLine (spacer (dependencies mkr)) destLifeline of
             Inl err \<Rightarrow> Inl (Wrapped ''space.CentreLine'' err)
           | Inr toCentre \<Rightarrow> Inr (fromCentre, toCentre)))"

definition interactionLabel :: "Geom \<Rightarrow> actionFn" where
  "interactionLabel g mkr tidemark s =
     (let dep = dependencies mkr in
      case refAt s 0 of
        Inl err \<Rightarrow> Inl err
      | Inr sourceLifeline \<Rightarrow>
     (case refAt s 1 of
        Inl err \<Rightarrow> Inl err
      | Inr destLifeline \<Rightarrow>
     (case LifelineCentres mkr sourceLifeline destLifeline of
        Inl err \<Rightarrow> Inl (Wrapped ''mkr.LifelineCentres'' err)
      | Inr (fromX, toX) \<Rightarrow>
          (let (labelX, horizJustification) = LabelPosn g fromX toX;
               prims = RowOfStrings labelX tidemark (fontHt dep) horizJustification
                         (LabelSegments s) (graphicsModel mkr);
               newTidemark = tidemark + real (length (LabelSegments s)) * fontHt dep
                               + sizer dep ''InteractionLineTextPadB'';
               noGoZone = NewNoGoZone (NewSegment tidemark newTidemark)
                            sourceLifeline destLifeline
           in Inr (newTidemark,
                   mkr\<lparr>graphicsModel := prims, noGoZones := noGoZones mkr @ [noGoZone]\<rparr>)))))"

definition selfLabel :: "Geom \<Rightarrow> actionFn" where
  "selfLabel g mkr tidemark s =
     (let dep = dependencies mkr in
      case refAt s 0 of
        Inl err \<Rightarrow> Inl err
      | Inr l \<Rightarrow>
     (case CentreLine (spacer dep) l of
        Inl err \<Rightarrow> Inl (Wrapped ''spacer.CentreLine'' err)
      | Inr centre \<Rightarrow>
          (let lineStartX = centre + 0.5 * sizer dep ''ActivityBoxWidth'';
               lineEndX = lineStartX
                            + sizer dep ''SelfLoopWidthFactor'' * LifelinePitch (spacer dep);
               labelX = 0.5 * (lineStartX + lineEndX);
               prims = RowOfStrings labelX tidemark (fontHt dep) Centre
                         (LabelSegments s) (graphicsModel mkr);
               htOfLabels = real (length (LabelSegments s)) * fontHt dep;
               newTidemark = tidemark + htOfLabels + sizer dep ''InteractionLineTextPadB''
           in Inr (newTidemark, mkr\<lparr>graphicsModel := prims\<rparr>))))"

definition interactionLine :: "Geom \<Rightarrow> actionFn" where
  "interactionLine g mkr tidemark s =
     (let dep = dependencies mkr in
      case refAt s 0 of
        Inl err \<Rightarrow> Inl err
      | Inr sourceLifeline \<Rightarrow>
     (case refAt s 1 of
        Inl err \<Rightarrow> Inl err
      | Inr destLifeline \<Rightarrow>
     (case LifelineCentres mkr sourceLifeline destLifeline of
        Inl err \<Rightarrow> Inl (Wrapped ''mkr.LifelineCentres'' err)
      | Inr centres \<Rightarrow>
          (let halfActivityBoxWidth = 0.5 * sizer dep ''ActivityBoxWidth'';
               (fromX, toX) = ShortenLineBy g halfActivityBoxWidth centres;
               y = tidemark;
               dashed = (Keyword s = Dash);
               prims1 = AddLine fromX y toX y dashed (graphicsModel mkr);
               arrowLen = sizer dep ''ArrowLen'';
               arrowWidth = sizer dep ''ArrowWidth'';
               arrow = MakeArrow g fromX toX y arrowLen arrowWidth;
               prims2 = AddFilledPoly arrow prims1;
               newTidemark = tidemark + sizer dep ''InteractionLinePadB'';
               noGoZone = NewNoGoZone (NewSegment tidemark newTidemark)
                            sourceLifeline destLifeline
           in Inr (newTidemark,
                   mkr\<lparr>graphicsModel := prims2, noGoZones := noGoZones mkr @ [noGoZone]\<rparr>)))))"

definition selfLines :: "Geom \<Rightarrow> actionFn" where
  "selfLines g mkr tidemark s =
     (let dep = dependencies mkr in
      case refAt s 0 of
        Inl err \<Rightarrow> Inl err
      | Inr l \<Rightarrow>
     (case CentreLine (spacer dep) l of
        Inl err \<Rightarrow> Inl (Wrapped ''spacer.CentreLine'' err)
      | Inr centre \<Rightarrow>
          (let lineStartX = centre + 0.5 * sizer dep ''ActivityBoxWidth'';
               lineEndX = lineStartX
                            + sizer dep ''SelfLoopWidthFactor'' * LifelinePitch (spacer dep);
               y = tidemark;
               notDashed = False;
               bottomY = y + sizer dep ''SelfLoopHeight'';
               prims1 = AddLine lineStartX y lineEndX y notDashed (graphicsModel mkr);
               prims2 = AddLine lineEndX y lineEndX bottomY notDashed prims1;
               prims3 = AddLine lineEndX bottomY lineStartX bottomY notDashed prims2;
               arrowLen = sizer dep ''ArrowLen'';
               arrowWidth = sizer dep ''ArrowWidth'';
               arrow = MakeArrow g lineEndX lineStartX bottomY arrowLen arrowWidth;
               prims4 = AddFilledPoly arrow prims3;
               newTidemark = bottomY + sizer dep ''InteractionLinePadB''
           in Inr (newTidemark, mkr\<lparr>graphicsModel := prims4\<rparr>))))"

definition startToBox :: actionFn where
  "startToBox mkr tidemark s =
     (let dep = dependencies mkr in
      case refAt s 1 of
        Inl err \<Rightarrow> Inl err
      | Inr toLifeline \<Rightarrow>
     (case boxes dep toLifeline of
        None \<Rightarrow> Inl Panic
      | Some bt \<Rightarrow>
          (if HasABoxInProgress bt then Inr (tidemark, mkr)
           else (case AddStartingAt tidemark bt of
                   Inl err \<Rightarrow> Inl (Wrapped ''boxes.AddStartingAt'' err)
                 | Inr bt' \<Rightarrow> Inr (tidemark, setBoxes toLifeline bt' mkr)))))"

definition startFromBox :: actionFn where
  "startFromBox mkr tidemark s =
     (let dep = dependencies mkr in
      case refAt s 0 of
        Inl err \<Rightarrow> Inl err
      | Inr fromLifeline \<Rightarrow>
     (case boxes dep fromLifeline of
        None \<Rightarrow> Inl Panic
      | Some bt \<Rightarrow>
          (if HasABoxInProgress bt then Inr (tidemark, mkr)
           else (let backTrackToStart = sizer dep ''ActivityBoxVerticalOverlap'' in
                 (case AddStartingAt (tidemark - backTrackToStart) bt of
                    Inl err \<Rightarrow> Inl (Wrapped ''boxes.AddStartingAt'' err)
                  | Inr bt' \<Rightarrow> Inr (tidemark, setBoxes fromLifeline bt' mkr))))))"

definition endBox :: actionFn where
  "endBox mkr tidemark s =
     (let dep = dependencies mkr in
      case refAt s 0 of
        Inl err \<Rightarrow> Inl err
      | Inr fromLifeline \<Rightarrow>
     (case boxes dep fromLifeline of
        None \<Rightarrow> Inl Panic
      | Some bt \<Rightarrow>
     (case TerminateAt tidemark bt of
        Inl err \<Rightarrow> Inl (Wrapped ''boxes.TerminateAt'' err)
      | Inr bt' \<Rightarrow>
          Inr (tidemark + sizer dep ''IndividualStoppedBoxPadB'',
               setBoxes fromLifeline bt' mkr))))"

text \<open>The first loop of \<^verbatim>\<open>ScanInteractionStatements\<close>: the actions of each statement,
  by keyword; a statement of another keyword adds none.\<close>

definition statementActions :: "Geom \<Rightarrow> Statement \<Rightarrow> dispatch list" where
  "statementActions g s =
     (case Keyword s of
        Dash \<Rightarrow> [(interactionLabel g, s), (startToBox, s), (interactionLine g, s)]
      | Full \<Rightarrow> [(interactionLabel g, s), (startFromBox, s), (startToBox, s),
                 (interactionLine g, s)]
      | Self \<Rightarrow> [(selfLabel g, s), (startFromBox, s), (selfLines g, s)]
      | Stop \<Rightarrow> [(endBox, s)]
      | _ \<Rightarrow> [])"

definition buildActions :: "Geom \<Rightarrow> Statement list \<Rightarrow> dispatch list" where
  "buildActions g statements = concat (map (statementActions g) statements)"

text \<open>The second loop, with its two variables \<^verbatim>\<open>prevTidemark\<close> and
  \<^verbatim>\<open>updatedTidemark\<close>; the result of the loop is \<^verbatim>\<open>updatedTidemark\<close>. The error
  that an action returns is wrapped; a panic inside an action is not an error that
  the loop sees, and ends the scan as it is.\<close>

fun runActions :: "dispatch list \<Rightarrow> real \<Rightarrow> real \<Rightarrow> Maker \<Rightarrow> error + real \<times> Maker" where
  "runActions [] prevTidemark updatedTidemark mkr = Inr (updatedTidemark, mkr)"
| "runActions (action # rest) prevTidemark updatedTidemark mkr =
     (case (fst action) mkr prevTidemark (snd action) of
        Inl err \<Rightarrow> (if err = Panic then Inl Panic else Inl (Wrapped ''actionFn'' err))
      | Inr (u, mkr') \<Rightarrow> runActions rest u u mkr')"

text \<open>\<^verbatim>\<open>updatedTidemark\<close> is declared without a value, so it starts at Go's zero value.\<close>

definition ScanInteractionStatements :: "Geom \<Rightarrow> Maker \<Rightarrow> real \<Rightarrow> Statement list \<Rightarrow> error + real \<times> NoGoZone list \<times> Maker" where
  "ScanInteractionStatements g mkr tidemark statements =
     (case runActions (buildActions g statements) tidemark 0 mkr of
        Inl err \<Rightarrow> Inl err
      | Inr (updatedTidemark, mkr') \<Rightarrow> Inr (updatedTidemark, noGoZones mkr', mkr'))"

section \<open>The monolithic creator\<close>

subsection \<open>Activity boxes of one lifeline\<close>

text \<open>\<^verbatim>\<open>boxExtent\<close> holds a \<^verbatim>\<open>segment\<close> (the fields \<^verbatim>\<open>start\<close> and \<^verbatim>\<open>end\<close>, here the
  record \<^typ>\<open>Segment\<close>) and the flag \<^verbatim>\<open>inProgress\<close>. \<^verbatim>\<open>lifelineBoxes\<close> is a struct
  with the single field \<^verbatim>\<open>boxes\<close>, the list of the extents.\<close>

record boxExtent =
  extent :: Segment
  inProgress :: bool

type_synonym lifelineBoxes = "boxExtent list"

definition NewLifelineBoxes :: lifelineBoxes where
  "NewLifelineBoxes = []"

definition mostRecent :: "lifelineBoxes \<Rightarrow> boxExtent option" where
  "mostRecent llb = (if length llb = 0 then None else Some (llb ! (length llb - 1)))"

definition lifelineBoxes_inProgress :: "lifelineBoxes \<Rightarrow> bool" where
  "lifelineBoxes_inProgress llb =
     (case mostRecent llb of None \<Rightarrow> False | Some b \<Rightarrow> inProgress b)"

definition terminateInProgressBoxAt :: "real \<Rightarrow> lifelineBoxes \<Rightarrow> lifelineBoxes" where
  "terminateInProgressBoxAt y llb =
     (case mostRecent llb of
        None \<Rightarrow> llb
      | Some b \<Rightarrow>
          llb[length llb - 1 := b\<lparr>extent := (extent b)\<lparr>End := y\<rparr>, inProgress := False\<rparr>])"

definition startBoxAt :: "real \<Rightarrow> lifelineBoxes \<Rightarrow> lifelineBoxes" where
  "startBoxAt y llb = llb @ [\<lparr>extent = \<lparr>Start = y, End = - 1\<rparr>, inProgress = True\<rparr>]"

definition boxExtentsAsSegments :: "lifelineBoxes \<Rightarrow> Segment list" where
  "boxExtentsAsSegments llb = map extent llb"

subsection \<open>The creator\<close>

text \<open>The fields of \<^verbatim>\<open>sizer.Sizer\<close> that the functions below read.\<close>

record Sizer =
  FrameTitleTextPadT :: real
  FramePadLR :: real
  FrameTitleTextPadL :: real
  FrameTitleTextPadB :: real
  FrameTitleBoxWidth :: real
  FrameTitleRectPadB :: real
  FrameInternalPadB :: real
  InteractionLineTextPadB :: real
  InteractionLinePadB :: real
  InteractionLineLabelIndent :: real
  ArrowLen :: real
  ArrowHeight :: real
  SelfLoopHeight :: real
  ActivityBoxVerticalOverlap :: real
  FinalizedActivityBoxesPadB :: real

text \<open>\<^verbatim>\<open>lifelineGeomH\<close>, the horizontal layout of the lifelines, is not among the
  sources: its methods are parameters.\<close>

record lifelineGeomH =
  InteractionLabelPosition :: "StatementRef \<Rightarrow> StatementRef \<Rightarrow> real \<times> Justification"
  InteractionLineEndPoints :: "StatementRef \<Rightarrow> StatementRef \<Rightarrow> real \<times> real"
  SelfInteractionLineXCoords :: "StatementRef \<Rightarrow> real \<times> real"
  ActivityBoxXCoords :: "StatementRef \<Rightarrow> real \<times> real \<times> real"

text \<open>Modelled from the spec: \<^verbatim>\<open>InteractionLineZones\<close> and its method
  \<^verbatim>\<open>RegisterSpaceClaim(source, dest, top, bottom)\<close> are not among the sources. The
  registry is the append-only collection of section 4.2.\<close>

type_synonym InteractionLineZones = "(StatementRef \<times> StatementRef \<times> real \<times> real) list"

definition RegisterSpaceClaim :: "StatementRef \<Rightarrow> StatementRef \<Rightarrow> real \<Rightarrow> real \<Rightarrow> InteractionLineZones \<Rightarrow> InteractionLineZones" where
  "RegisterSpaceClaim sourceLifeline destLifeline y1 y2 z =
     z @ [(sourceLifeline, destLifeline, y1, y2)]"

record frameMaker =
  frameTop :: real

text \<open>The creator. \<^verbatim>\<open>graphicsModel\<close> stands for \<^verbatim>\<open>graphicsModel.Primitives\<close>, the only
  part of the graphics model that the functions below touch.\<close>

record Creator =
  width :: real
  fontHeight :: real
  allStatements :: "Statement list"
  lifelineStatements :: "StatementRef list"
  lifelineGeomH :: lifelineGeomH
  frameMaker :: frameMaker
  activityBoxes :: "StatementRef \<rightharpoonup> lifelineBoxes"
  ilZones :: InteractionLineZones
  graphicsModel :: Primitives
  sizer :: Sizer
  tideMark :: real

definition rowOfLabels :: "real \<Rightarrow> real \<Rightarrow> Justification \<Rightarrow> string list \<Rightarrow> Creator \<Rightarrow> Creator" where
  "rowOfLabels x firstRowY horizJustification labelSegments c =
     c\<lparr>graphicsModel :=
         fold (\<lambda>(i, labelSeg).
                 AddLabel labelSeg (fontHeight c) x (firstRowY + real i * fontHeight c)
                   horizJustification Top)
           (enumerate 0 labelSegments) (graphicsModel c)\<rparr>"

definition Creator_interactionLabel :: "Statement \<Rightarrow> Creator \<Rightarrow> error + Creator" where
  "Creator_interactionLabel statement c =
     (case refAt statement 0 of
        Inl err \<Rightarrow> Inl err
      | Inr sourceLifeline \<Rightarrow>
     (case refAt statement 1 of
        Inl err \<Rightarrow> Inl err
      | Inr destLifeline \<Rightarrow>
          (let (x, horizJustification) =
                 InteractionLabelPosition (lifelineGeomH c) sourceLifeline destLifeline;
               firstRowY = tideMark c;
               c1 = rowOfLabels x firstRowY horizJustification (LabelSegments statement) c;
               c2 = c1\<lparr>tideMark := tideMark c1
                        + (real (length (LabelSegments statement)) * fontHeight c1
                           + InteractionLineTextPadB (sizer c1))\<rparr>
           in Inr (c2\<lparr>ilZones := RegisterSpaceClaim sourceLifeline destLifeline
                                    firstRowY (tideMark c2) (ilZones c2)\<rparr>))))"

definition Creator_interactionLine :: "Geom \<Rightarrow> Statement \<Rightarrow> Creator \<Rightarrow> error + Creator" where
  "Creator_interactionLine g statement c =
     (case refAt statement 0 of
        Inl err \<Rightarrow> Inl err
      | Inr sourceLifeline \<Rightarrow>
     (case refAt statement 1 of
        Inl err \<Rightarrow> Inl err
      | Inr destLifeline \<Rightarrow>
          (let (x1, x2) =
                 InteractionLineEndPoints (lifelineGeomH c) sourceLifeline destLifeline;
               y = tideMark c;
               prims1 = AddLine x1 y x2 y (Keyword statement = Dash) (graphicsModel c);
               arrowVertices = MakeArrow g x1 x2 y (ArrowLen (sizer c)) (ArrowHeight (sizer c));
               prims2 = AddFilledPoly arrowVertices prims1;
               c1 = c\<lparr>graphicsModel := prims2,
                       tideMark := tideMark c
                         + (0.5 * ArrowHeight (sizer c) + InteractionLinePadB (sizer c))\<rparr>
           in Inr (c1\<lparr>ilZones := RegisterSpaceClaim sourceLifeline destLifeline
                                    y (tideMark c1) (ilZones c1)\<rparr>))))"

definition selfInteractionLines :: "Geom \<Rightarrow> Statement \<Rightarrow> Creator \<Rightarrow> error + Creator" where
  "selfInteractionLines g statement c =
     (case refAt statement 0 of
        Inl err \<Rightarrow> Inl err
      | Inr theLifeline \<Rightarrow>
          (let (left, right) = SelfInteractionLineXCoords (lifelineGeomH c) theLifeline;
               topY = tideMark c;
               botY = tideMark c + SelfLoopHeight (sizer c);
               prims1 = AddLine left topY right topY False (graphicsModel c);
               prims2 = AddLine right topY right botY False prims1;
               prims3 = AddLine right botY left botY False prims2;
               arrowVertices = MakeArrow g right left botY
                                 (ArrowLen (sizer c)) (ArrowHeight (sizer c));
               prims4 = AddFilledPoly arrowVertices prims3;
               labelX = left + InteractionLineLabelIndent (sizer c);
               n = length (LabelSegments statement);
               firstRowY = botY - real n * fontHeight c - InteractionLineTextPadB (sizer c);
               c1 = rowOfLabels labelX firstRowY Left (LabelSegments statement)
                      (c\<lparr>graphicsModel := prims4\<rparr>)
           in Inr (c1\<lparr>tideMark := botY + InteractionLinePadB (sizer c1)\<rparr>)))"

text \<open>\<^verbatim>\<open>c.activityBoxes[lifeline]\<close> is the nil pointer for a lifeline that is not a
  key of the map, and the method called through it panics.\<close>

definition potentiallyStartActivityBox :: "StatementRef \<Rightarrow> real \<Rightarrow> Creator \<Rightarrow> error + Creator" where
  "potentiallyStartActivityBox lifeline behindTidemarkDelta c =
     (case activityBoxes c lifeline of
        None \<Rightarrow> Inl Panic
      | Some llb \<Rightarrow>
          (if lifelineBoxes_inProgress llb then Inr c
           else (let y = tideMark c - behindTidemarkDelta
                 in Inr (c\<lparr>activityBoxes := (activityBoxes c)(lifeline \<mapsto> startBoxAt y llb)\<rparr>))))"

definition potentiallyStartToBox :: "Statement \<Rightarrow> Creator \<Rightarrow> error + Creator" where
  "potentiallyStartToBox statement c =
     (let behindTidemarkDelta = 0.0 in
      case refAt statement 1 of
        Inl err \<Rightarrow> Inl err
      | Inr lifeline \<Rightarrow> potentiallyStartActivityBox lifeline behindTidemarkDelta c)"

definition potentiallyStartFromBox :: "Statement \<Rightarrow> Creator \<Rightarrow> error + Creator" where
  "potentiallyStartFromBox statement c =
     (let behindTidemarkDelta = ActivityBoxVerticalOverlap (sizer c) in
      case refAt statement 0 of
        Inl err \<Rightarrow> Inl err
      | Inr lifeline \<Rightarrow> potentiallyStartActivityBox lifeline behindTidemarkDelta c)"

definition finalizeActivityBox :: "StatementRef \<Rightarrow> real \<Rightarrow> Creator \<Rightarrow> error + Creator" where
  "finalizeActivityBox lifeline bottomY c =
     (case activityBoxes c lifeline of
        None \<Rightarrow> Inl Panic
      | Some llb \<Rightarrow>
          (if \<not> lifelineBoxes_inProgress llb then Inr c
           else (case mostRecent llb of
                   None \<Rightarrow> Inl Panic
                 | Some b \<Rightarrow>
                     (let topY = Start (extent b);
                          (left, _, right) = ActivityBoxXCoords (lifelineGeomH c) lifeline;
                          prims = AddRect left topY right bottomY (graphicsModel c)
                      in Inr (c\<lparr>graphicsModel := prims, tideMark := bottomY,
                                activityBoxes := (activityBoxes c)
                                  (lifeline \<mapsto> terminateInProgressBoxAt bottomY llb)\<rparr>)))))"

definition Creator_endBox :: "Statement \<Rightarrow> Creator \<Rightarrow> error + Creator" where
  "Creator_endBox endBoxStatement c =
     (case refAt endBoxStatement 0 of
        Inl err \<Rightarrow> Inl err
      | Inr lifeline \<Rightarrow> (let bottomY = tideMark c in finalizeActivityBox lifeline bottomY c))"

text \<open>The loop of \<^verbatim>\<open>finalizeActivityBoxes\<close> ranges over the keys of the map
  \<^verbatim>\<open>activityBoxes\<close>, in an order that Go leaves open: the order is the parameter
  \<open>keys\<close>.\<close>

fun finalizeEach :: "StatementRef list \<Rightarrow> real \<Rightarrow> Creator \<Rightarrow> error + Creator" where
  "finalizeEach [] bottomY c = Inr c"
| "finalizeEach (lifeline # rest) bottomY c =
     (case finalizeActivityBox lifeline bottomY c of
        Inl err \<Rightarrow> Inl err
      | Inr c' \<Rightarrow> finalizeEach rest bottomY c')"

definition finalizeActivityBoxes :: "StatementRef list \<Rightarrow> Creator \<Rightarrow> error + Creator" where
  "finalizeActivityBoxes keys c =
     (let bottomY = tideMark c + ActivityBoxVerticalOverlap (sizer c) in
      case finalizeEach keys bottomY c of
        Inl err \<Rightarrow> Inl err
      | Inr c' \<Rightarrow> Inr (c'\<lparr>tideMark := bottomY + FinalizedActivityBoxesPadB (sizer c')\<rparr>))"

subsection \<open>Events\<close>

datatype EventType =
    EndBox
  | InteractionLine
  | InteractionLabel
  | LifelineLine
  | LifelineTitleBox
  | SelfInteractionLines
  | SelfInteractionLabel
  | PotentiallyStartFromBox
  | PotentiallyStartToBox

text \<open>The table \<^verbatim>\<open>EventsRequired\<close>; a keyword that is not a key of the Go map yields
  no event.\<close>

definition EventsRequired :: "Keyword \<Rightarrow> EventType list" where
  "EventsRequired k =
     (case k of
        Life \<Rightarrow> [LifelineTitleBox, LifelineLine]
      | Dash \<Rightarrow> [InteractionLabel, PotentiallyStartToBox, InteractionLine]
      | Full \<Rightarrow> [InteractionLabel, PotentiallyStartFromBox, PotentiallyStartToBox,
                 InteractionLine]
      | Self \<Rightarrow> [PotentiallyStartFromBox, SelfInteractionLines]
      | Stop \<Rightarrow> [EndBox]
      | Title \<Rightarrow> [])"

definition graphicsForDrawingEvent :: "Geom \<Rightarrow> EventType \<Rightarrow> Statement \<Rightarrow> Creator \<Rightarrow> error + Creator" where
  "graphicsForDrawingEvent g evt statement c =
     (case evt of
        EndBox \<Rightarrow> Creator_endBox statement c
      | InteractionLine \<Rightarrow> Creator_interactionLine g statement c
      | InteractionLabel \<Rightarrow> Creator_interactionLabel statement c
      | SelfInteractionLines \<Rightarrow> selfInteractionLines g statement c
      | PotentiallyStartFromBox \<Rightarrow> potentiallyStartFromBox statement c
      | PotentiallyStartToBox \<Rightarrow> potentiallyStartToBox statement c
      | _ \<Rightarrow> Inr c)"

text \<open>The two nested loops of \<^verbatim>\<open>sequentialPass\<close>. The scanner that maps each
  statement to its events is not among the sources; the events of a statement are
  those of the table \<^verbatim>\<open>EventsRequired\<close>.\<close>

fun statementEvents :: "Geom \<Rightarrow> EventType list \<Rightarrow> Statement \<Rightarrow> Creator \<Rightarrow> error + Creator" where
  "statementEvents g [] statement c = Inr c"
| "statementEvents g (evt # rest) statement c =
     (case graphicsForDrawingEvent g evt statement c of
        Inl err \<Rightarrow> Inl err
      | Inr c' \<Rightarrow> statementEvents g rest statement c')"

fun sequentialPassFrom :: "Geom \<Rightarrow> Statement list \<Rightarrow> Creator \<Rightarrow> error + Creator" where
  "sequentialPassFrom g [] c = Inr c"
| "sequentialPassFrom g (statement # rest) c =
     (case statementEvents g (EventsRequired (Keyword statement)) statement c of
        Inl err \<Rightarrow> Inl err
      | Inr c' \<Rightarrow> sequentialPassFrom g rest c')"

definition sequentialPass :: "Geom \<Rightarrow> Creator \<Rightarrow> error + Creator" where
  "sequentialPass g c = sequentialPassFrom g (allStatements c) c"

subsection \<open>The frame maker\<close>

text \<open>\<^verbatim>\<open>findTitleSegments\<close>: the label segments of the first \<^verbatim>\<open>Title\<close> statement, or
  the empty list.\<close>

fun findTitleSegmentsIn :: "Statement list \<Rightarrow> string list" where
  "findTitleSegmentsIn [] = []"
| "findTitleSegmentsIn (statement # rest) =
     (if Keyword statement = Title then LabelSegments statement
      else findTitleSegmentsIn rest)"

definition findTitleSegments :: "Creator \<Rightarrow> string list" where
  "findTitleSegments c = findTitleSegmentsIn (allStatements c)"

definition initFrameAndMakeTitleBox :: "Creator \<Rightarrow> Creator" where
  "initFrameAndMakeTitleBox c =
     (let found = findTitleSegments c;
          titleSegments = (if length found = 0 then [''Unknown Title''] else found);
          c1 = c\<lparr>frameMaker := (frameMaker c)\<lparr>frameTop := tideMark c\<rparr>\<rparr>;
          c2 = c1\<lparr>tideMark := tideMark c1 + FrameTitleTextPadT (sizer c1)\<rparr>;
          topOfTitleTextY = tideMark c2;
          leftOfText = FramePadLR (sizer c2) + FrameTitleTextPadL (sizer c2);
          c3 = rowOfLabels leftOfText topOfTitleTextY Left titleSegments c2;
          c4 = c3\<lparr>tideMark := tideMark c3 + real (length titleSegments) * fontHeight c3\<rparr>;
          c5 = c4\<lparr>tideMark := tideMark c4 + FrameTitleTextPadB (sizer c4)\<rparr>;
          rightOfFrameTitleBox = FrameTitleBoxWidth (sizer c5);
          c6 = c5\<lparr>graphicsModel :=
                    AddRect (FramePadLR (sizer c5)) (frameTop (frameMaker c5))
                      rightOfFrameTitleBox (tideMark c5) (graphicsModel c5)\<rparr>
      in c6\<lparr>tideMark := tideMark c6 + FrameTitleRectPadB (sizer c6)\<rparr>)"

definition finalizeFrame :: "Creator \<Rightarrow> Creator" where
  "finalizeFrame c =
     (let c1 = c\<lparr>tideMark := tideMark c + FrameInternalPadB (sizer c)\<rparr>;
          frameBottom = tideMark c1;
          left = FramePadLR (sizer c1);
          right = width c1 - FramePadLR (sizer c1)
      in c1\<lparr>graphicsModel :=
              AddRect left (frameTop (frameMaker c1)) right frameBottom (graphicsModel c1)\<rparr>)"

section \<open>Vocabulary of the properties\<close>

text \<open>An occupied interval is a valid segment that meets or touches the extent
  \<open>[topY, bottomY)\<close> of the lifeline.\<close>

definition meetsExtent :: "real \<Rightarrow> real \<Rightarrow> Segment \<Rightarrow> bool" where
  "meetsExtent topY bottomY s = (Start s \<le> End s \<and> topY \<le> End s \<and> Start s \<le> bottomY)"

text \<open>What the walk of step 4 relies on: from the cursor on, every interval ends at
  or after the cursor, starts at or before the bottom, and no later interval starts
  before it.\<close>

fun walkable :: "real \<Rightarrow> real \<Rightarrow> Segment list \<Rightarrow> bool" where
  "walkable c b [] = True"
| "walkable c b (i # rest) =
     (c \<le> End i \<and> Start i \<le> End i \<and> Start i \<le> b
      \<and> list_all (\<lambda>j. Start i \<le> Start j) rest \<and> walkable (End i) b rest)"

text \<open>The sizes that the actions of the interactions maker add to the tidemark, and
  those of the creator, are not negative.\<close>

definition nonnegMeasurements :: "MakerDependencies \<Rightarrow> bool" where
  "nonnegMeasurements dep =
     (0 \<le> fontHt dep
      \<and> 0 \<le> MakerDependencies.sizer dep ''InteractionLineTextPadB''
      \<and> 0 \<le> MakerDependencies.sizer dep ''InteractionLinePadB''
      \<and> 0 \<le> MakerDependencies.sizer dep ''SelfLoopHeight''
      \<and> 0 \<le> MakerDependencies.sizer dep ''IndividualStoppedBoxPadB'')"

definition nonnegSizer :: "Creator \<Rightarrow> bool" where
  "nonnegSizer c =
     (0 \<le> fontHeight c
      \<and> 0 \<le> InteractionLineTextPadB (sizer c)
      \<and> 0 \<le> InteractionLinePadB (sizer c)
      \<and> 0 \<le> ArrowHeight (sizer c)
      \<and> 0 \<le> SelfLoopHeight (sizer c)
      \<and> 0 \<le> ActivityBoxVerticalOverlap (sizer c)
      \<and> 0 \<le> FinalizedActivityBoxesPadB (sizer c)
      \<and> 0 \<le> FrameInternalPadB (sizer c))"




subsection \<open>Example values\<close>

text \<open>Three lifelines \<open>0\<close>, \<open>1\<close>, \<open>2\<close>, centred at \<open>0\<close>, \<open>100\<close> and \<open>200\<close>, a font
  height of \<open>20\<close>, and every named size equal to \<open>10\<close>.\<close>

definition exampleGeom :: Geom where
  "exampleGeom =
     \<lparr>ShortenLineBy = (\<lambda>d (a, b). (a + d, b - d)),
      MakeArrow = (\<lambda>x1 x2 y arrowLen arrowWidth. [NewPoint x2 y]),
      LabelPosn = (\<lambda>a b. (a, Left))\<rparr>"

definition exampleSpacing :: Spacing where
  "exampleSpacing = \<lparr>CentreLine = (\<lambda>l. Inr (100 * real l)), LifelinePitch = 100\<rparr>"

definition exampleMaker :: Maker where
  "exampleMaker =
     NewMaker
       (NewMakerDependencies 20 exampleSpacing (\<lambda>name. 10)
          [0 \<mapsto> NewBoxTracker, 1 \<mapsto> NewBoxTracker, 2 \<mapsto> NewBoxTracker])
       NewPrimitives"

definition exampleSizer :: Sizer where
  "exampleSizer =
     \<lparr>FrameTitleTextPadT = 5, FramePadLR = 10, FrameTitleTextPadL = 20, FrameTitleTextPadB = 5,
      FrameTitleBoxWidth = 400, FrameTitleRectPadB = 10, FrameInternalPadB = 10,
      InteractionLineTextPadB = 10, InteractionLinePadB = 10, InteractionLineLabelIndent = 5,
      ArrowLen = 30, ArrowHeight = 12, SelfLoopHeight = 60, ActivityBoxVerticalOverlap = 10,
      FinalizedActivityBoxesPadB = 10\<rparr>"

definition exampleGeomH :: lifelineGeomH where
  "exampleGeomH =
     \<lparr>InteractionLabelPosition = (\<lambda>a b. (100 * real a, Left)),
      InteractionLineEndPoints = (\<lambda>a b. (100 * real a, 100 * real b)),
      SelfInteractionLineXCoords = (\<lambda>a. (100 * real a, 100 * real a + 50)),
      ActivityBoxXCoords = (\<lambda>a. (100 * real a - 5, 100 * real a, 100 * real a + 5))\<rparr>"

text \<open>A creator with one lifeline, no title statement, and the tidemark at \<open>100\<close>.\<close>

definition exampleCreator :: Creator where
  "exampleCreator =
     \<lparr>width = 2000, fontHeight = 20,
      allStatements = [\<lparr>Keyword = Life, ReferencedLifelines = [], LabelSegments = [''A'']\<rparr>,
                       \<lparr>Keyword = Stop, ReferencedLifelines = [0], LabelSegments = []\<rparr>],
      lifelineStatements = [0],
      lifelineGeomH = exampleGeomH,
      frameMaker = \<lparr>frameTop = 0\<rparr>,
      activityBoxes = [0 \<mapsto> NewLifelineBoxes],
      ilZones = [],
      graphicsModel = NewPrimitives,
      sizer = exampleSizer,
      tideMark = 100\<rparr>"

definition exampleSelf :: Statement where
  "exampleSelf = \<lparr>Keyword = Self, ReferencedLifelines = [1], LabelSegments = [''loop'']\<rparr>"

definition exampleFull :: Statement where
  "exampleFull = \<lparr>Keyword = Full, ReferencedLifelines = [0, 2], LabelSegments = [''call'']\<rparr>"

definition exampleStop :: Statement where
  "exampleStop = \<lparr>Keyword = Stop, ReferencedLifelines = [0], LabelSegments = []\<rparr>"

section \<open>The segment assembler\<close>

subsection \<open>Points covered by a list of segments\<close>

lemma inSegs_Nil [simp]: "inSegs x [] = False"
  by (simp add: inSegs_def)

lemma inSegs_Cons [simp]:
  "inSegs x (s # segs) = ((Start s \<le> x \<and> x < End s) \<or> inSegs x segs)"
  by (simp add: inSegs_def)

lemma inSegs_append [simp]: "inSegs x (xs @ ys) = (inSegs x xs \<or> inSegs x ys)"
  by (induction xs) auto



subsection \<open>Sorting\<close>

lemma Segment_key_inj: "inj (\<lambda>s::Segment. (Start s, End s))"
  by (rule injI) simp

lemma sortSegs_perm: "mset xs = mset ys \<Longrightarrow> sortSegs xs = sortSegs ys"
  unfolding sortSegs_def
  by (rule sort_key_eq_sort_key) (auto intro: inj_on_subset[OF Segment_key_inj])




subsection \<open>Merging\<close>





subsection \<open>Walking\<close>


lemma walkGaps_ascending:
  "walkable c b xs \<Longrightarrow>
     ascending (walkGaps c b xs) \<and> list_all (\<lambda>g. c \<le> Start g) (walkGaps c b xs)"
proof (induction xs arbitrary: c)
  case Nil
  then show ?case by (auto simp: NewSegment_def ascending_def)
next
  case (Cons i rest)
  then have ih: "ascending (walkGaps (End i) b rest)"
    "list_all (\<lambda>g. End i \<le> Start g) (walkGaps (End i) b rest)"
    by auto
  from Cons.prems have "Start i \<le> End i" "c \<le> End i" by simp_all
  with ih show ?case
    by (fastforce simp: NewSegment_def ascending_def list_all_iff)
qed


subsection \<open>Merged intervals are separated, and the walk between them\<close>

lemma mergeSegs_valid:
  "list_all (\<lambda>s. Start s \<le> End s) xs \<Longrightarrow> list_all (\<lambda>s. Start s \<le> End s) (mergeSegs xs)"
  by (induction xs rule: mergeSegs.induct) (auto simp: NewSegment_def)







subsection \<open>Evaluation of the assembler on concrete inputs\<close>

lemmas assemble_eval =
  Assemble_def candidateGaps_def occupied_def ApplicableTo_def spanIncludes_def sortSegs_def
  NewSegment_def NewNoGoZone_def Length_def NewBoxTracker_def meetsExtent_def

text \<open>The six tests of the assembler in the repository, on the model: a zone alone, a
  box alone, a zone and a box, two zones out of order, two overlapping zones, and a
  zone that leaves a remainder shorter than \<open>minSegLen\<close>. The lifelines \<open>a\<close>, \<open>b\<close>,
  \<open>c\<close> of the tests are \<open>0\<close>, \<open>1\<close>, \<open>2\<close>.\<close>

lemma Assemble_repository_tests:
  "Assemble 1 1 100 (1/10) [NewNoGoZone (NewSegment 10 50) 0 2] NewBoxTracker [0, 1, 2]
     = [NewSegment 1 10, NewSegment 50 100]"
  "Assemble 1 1 100 (1/10) [] [\<lparr>boxStart = 70, boxEnd = Some 90\<rparr>] []
     = [NewSegment 1 70, NewSegment 90 100]"
  "Assemble 1 1 100 (1/10) [NewNoGoZone (NewSegment 10 50) 0 2]
     [\<lparr>boxStart = 70, boxEnd = Some 90\<rparr>] [0, 1, 2]
     = [NewSegment 1 10, NewSegment 50 70, NewSegment 90 100]"
  "Assemble 1 1 100 (1/10)
     [NewNoGoZone (NewSegment 50 60) 0 2, NewNoGoZone (NewSegment 10 20) 0 2]
     NewBoxTracker [0, 1, 2]
     = [NewSegment 1 10, NewSegment 20 50, NewSegment 60 100]"
  "Assemble 1 1 100 (1/10)
     [NewNoGoZone (NewSegment 50 60) 0 2, NewNoGoZone (NewSegment 50 70) 0 2]
     NewBoxTracker [0, 1, 2]
     = [NewSegment 1 50, NewSegment 70 100]"
  "Assemble 1 1 100 (1/10) [NewNoGoZone (NewSegment 50 (9999/100)) 0 2]
     NewBoxTracker [0, 1, 2]
     = [NewSegment 1 50]"
  by (simp_all add: assemble_eval)

lemma BoxTracker_repository_test:
  "AddStartingAt 70 NewBoxTracker = Inr [\<lparr>boxStart = 70, boxEnd = None\<rparr>]"
  "TerminateAt 90 [\<lparr>boxStart = 70, boxEnd = None\<rparr>]
     = Inr [\<lparr>boxStart = 70, boxEnd = Some 90\<rparr>]"
  by (simp_all add: AddStartingAt_def TerminateAt_def HasABoxInProgress_def NewBoxTracker_def)

subsection \<open>An interval wholly outside the extent\<close>

text \<open>Step 4 neither clips nor skips an occupied interval that lies wholly outside
  the extent: with the extent \<open>[1, 100)\<close> and the single zone \<open>[150, 160)\<close> the
  walk emits the gap \<open>[1, 150)\<close>. No scan hands such an interval to the assembler
  (lemma \<open>scan_output_meets_extent\<close> below).\<close>

lemma Assemble_interval_outside_extent:
  "Assemble 1 1 100 (1/10) [NewNoGoZone (NewSegment 150 160) 0 2] NewBoxTracker [0, 1, 2]
     = [NewSegment 1 150]"
  by (simp add: assemble_eval)

subsection \<open>Applicability of a zone\<close>

lemma indexOf_nth: "distinct xs \<Longrightarrow> i < length xs \<Longrightarrow> indexOf (xs ! i) xs = Some i"
proof (induction xs arbitrary: i)
  case Nil
  then show ?case by simp
next
  case (Cons x xs)
  show ?case
  proof (cases i)
    case 0
    then show ?thesis by simp
  next
    case (Suc n)
    with Cons.prems have "n < length xs" "xs ! n \<in> set xs" "x \<notin> set xs" "distinct xs"
      by auto
    with Cons.IH[of n] Suc show ?thesis by auto
  qed
qed

lemma ApplicableTo_append:
  "ApplicableTo l a (zs1 @ zs2) = ApplicableTo l a zs1 @ ApplicableTo l a zs2"
  by (simp add: ApplicableTo_def)

lemma spanIncludes_nth:
  assumes "distinct a" "i < length a" "j < length a" "k < length a"
  shows "spanIncludes (NewNoGoZone seg (a ! i) (a ! j)) (a ! k) a
           = (min i j \<le> k \<and> k \<le> max i j)"
  using assms by (simp add: spanIncludes_def NewNoGoZone_def indexOf_nth)

text \<open>C2. In a declared order without repetition, a zone registered for the lanes at
  the positions \<open>i\<close> and \<open>j\<close> contributes its segment to the occupied intervals of the
  lifeline at position \<open>k\<close> exactly when \<open>k\<close> lies between \<open>i\<close> and \<open>j\<close> inclusive,
  wherever the zone stands in the registry; a zone for the pair \<open>(A, A)\<close> applies to
  lane \<open>A\<close> only.\<close>

theorem zone_applies_between_lanes:
  assumes "distinct a" "i < length a" "j < length a" "k < length a"
  shows "occupied (a ! k) (zs1 @ NewNoGoZone seg (a ! i) (a ! j) # zs2) bt a =
           ApplicableTo (a ! k) a zs1
           @ (if min i j \<le> k \<and> k \<le> max i j then [seg] else [])
           @ ApplicableTo (a ! k) a zs2 @ Extents bt
         \<and> (spanIncludes (NewNoGoZone seg (a ! i) (a ! i)) (a ! k) a = (k = i))"
proof -
  have "ApplicableTo (a ! k) a [NewNoGoZone seg (a ! i) (a ! j)] =
          (if min i j \<le> k \<and> k \<le> max i j then [seg] else [])"
    using spanIncludes_nth[OF assms, of seg] by (simp add: ApplicableTo_def NewNoGoZone_def)
  then have "occupied (a ! k) (zs1 @ [NewNoGoZone seg (a ! i) (a ! j)] @ zs2) bt a =
           ApplicableTo (a ! k) a zs1
           @ (if min i j \<le> k \<and> k \<le> max i j then [seg] else [])
           @ ApplicableTo (a ! k) a zs2 @ Extents bt"
    unfolding occupied_def ApplicableTo_append by simp
  moreover have "spanIncludes (NewNoGoZone seg (a ! i) (a ! i)) (a ! k) a = (k = i)"
    using spanIncludes_nth[OF assms(1) assms(2) assms(2) assms(4), of seg] by auto
  ultimately show ?thesis by simp
qed

text \<open>The theorem at the input of the test with one zone: lifelines \<open>a, b, c\<close>, a zone
  for \<open>(a, c)\<close>, seen from \<open>b\<close>.\<close>

theorem zone_applies_between_lanes_witness:
  "distinct [10, 11, 12 :: nat] \<and> (0::nat) < length [10, 11, 12 :: nat]
   \<and> (2::nat) < length [10, 11, 12 :: nat] \<and> (1::nat) < length [10, 11, 12 :: nat]
   \<and> occupied ([10, 11, 12] ! 1)
        ([] @ NewNoGoZone (NewSegment 10 50) ([10, 11, 12] ! 0) ([10, 11, 12] ! 2) # [])
        NewBoxTracker [10, 11, 12]
       = ApplicableTo ([10, 11, 12] ! 1) [10, 11, 12] []
         @ (if min 0 2 \<le> (1::nat) \<and> (1::nat) \<le> max 0 2 then [NewSegment 10 50] else [])
         @ ApplicableTo ([10, 11, 12] ! 1) [10, 11, 12] [] @ Extents NewBoxTracker"
proof -
  have h: "distinct [10, 11, 12 :: nat]" "(0::nat) < length [10, 11, 12 :: nat]"
    "(2::nat) < length [10, 11, 12 :: nat]" "(1::nat) < length [10, 11, 12 :: nat]"
    by simp_all
  from h zone_applies_between_lanes[OF h, of "[]" "NewSegment 10 50" "[]" NewBoxTracker]
  show ?thesis by blast
qed

subsection \<open>Order independence\<close>

lemma mset_Extents:
  "mset (Extents bt) =
     image_mset (\<lambda>b. NewSegment (boxStart b) (the (boxEnd b)))
       (filter_mset (\<lambda>b. boxEnd b \<noteq> None) (mset bt))"
  by (induction bt) (auto split: option.splits)

lemma mset_ApplicableTo:
  "mset (ApplicableTo l a zones) =
     image_mset Height (filter_mset (\<lambda>z. spanIncludes z l a) (mset zones))"
  by (simp add: ApplicableTo_def)

text \<open>C6. Permuting the no-go zones and permuting the box extents leaves the returned
  sequence of gaps unchanged.\<close>

theorem Assemble_order_independent:
  assumes "mset zones = mset zones'" "mset bt = mset bt'"
  shows "Assemble l topY bottomY minSegLen zones bt allLifelines
           = Assemble l topY bottomY minSegLen zones' bt' allLifelines"
proof -
  have "mset (occupied l zones bt allLifelines) = mset (occupied l zones' bt' allLifelines)"
    using assms by (simp add: occupied_def mset_Extents mset_ApplicableTo)
  then have "sortSegs (occupied l zones bt allLifelines)
               = sortSegs (occupied l zones' bt' allLifelines)"
    by (rule sortSegs_perm)
  then show ?thesis by (simp add: Assemble_def candidateGaps_def)
qed

text \<open>The theorem at the input of the sorting test, with the two zones and the two
  boxes in either order.\<close>

theorem Assemble_order_independent_witness:
  "mset [NewNoGoZone (NewSegment 50 60) 0 2, NewNoGoZone (NewSegment 10 20) 0 2]
     = mset [NewNoGoZone (NewSegment 10 20) 0 2, NewNoGoZone (NewSegment 50 60) 0 2]
   \<and> mset [\<lparr>boxStart = 70, boxEnd = Some 80\<rparr>, \<lparr>boxStart = 30, boxEnd = Some 40\<rparr>]
     = mset [\<lparr>boxStart = 30, boxEnd = Some 40\<rparr>, \<lparr>boxStart = 70, boxEnd = Some 80\<rparr>]
   \<and> Assemble 1 1 100 (1/10)
       [NewNoGoZone (NewSegment 50 60) 0 2, NewNoGoZone (NewSegment 10 20) 0 2]
       [\<lparr>boxStart = 70, boxEnd = Some 80\<rparr>, \<lparr>boxStart = 30, boxEnd = Some 40\<rparr>] [0, 1, 2]
     = Assemble 1 1 100 (1/10)
       [NewNoGoZone (NewSegment 10 20) 0 2, NewNoGoZone (NewSegment 50 60) 0 2]
       [\<lparr>boxStart = 30, boxEnd = Some 40\<rparr>, \<lparr>boxStart = 70, boxEnd = Some 80\<rparr>] [0, 1, 2]"
proof -
  have h1: "mset [NewNoGoZone (NewSegment 50 60) 0 2, NewNoGoZone (NewSegment 10 20) 0 2]
     = mset [NewNoGoZone (NewSegment 10 20) 0 2, NewNoGoZone (NewSegment 50 60) 0 2]"
    by (simp add: add_mset_commute)
  have h2: "mset [\<lparr>boxStart = 70, boxEnd = Some 80\<rparr>, \<lparr>boxStart = 30, boxEnd = Some 40\<rparr>]
     = mset [\<lparr>boxStart = 30, boxEnd = Some (40::real)\<rparr>, \<lparr>boxStart = 70, boxEnd = Some 80\<rparr>]"
    by (simp add: add_mset_commute)
  from h1 h2 Assemble_order_independent[OF h1 h2, of 1 1 100 "1/10" "[0, 1, 2]"]
  show ?thesis by blast
qed

subsection \<open>Threshold filter\<close>

text \<open>C7. A candidate gap is returned exactly when its length is at least
  \<open>minSegLen\<close>: a candidate of length \<open>minSegLen\<close> is kept, and one of length
  \<open>minSegLen - \<epsilon>\<close> with \<open>\<epsilon> > 0\<close> is not returned.\<close>

theorem Assemble_threshold_filter:
  "(g \<in> set (Assemble l topY bottomY minSegLen zones bt allLifelines)
      \<longleftrightarrow> g \<in> set (candidateGaps l topY bottomY zones bt allLifelines)
          \<and> minSegLen \<le> Length g)
   \<and> (g \<in> set (candidateGaps l topY bottomY zones bt allLifelines)
        \<and> Length g = minSegLen
      \<longrightarrow> g \<in> set (Assemble l topY bottomY minSegLen zones bt allLifelines))
   \<and> (0 < \<epsilon> \<and> Length g' = minSegLen - \<epsilon>
      \<longrightarrow> g' \<notin> set (Assemble l topY bottomY minSegLen zones bt allLifelines))"
  by (auto simp: Assemble_def)

text \<open>The theorem with \<open>minSegLen = 1/2\<close> and the zones \<open>[50, 60)\<close> and
  \<open>[60.25, 99.5)\<close>: the candidate \<open>[99.5, 100)\<close>, of length \<open>1/2\<close>, is kept and the
  candidate \<open>[60, 60.25)\<close>, of length \<open>1/2 - 1/4\<close>, is discarded.\<close>

theorem Assemble_threshold_filter_witness:
  "NewSegment (199/2) 100
     \<in> set (candidateGaps 1 1 100
              [NewNoGoZone (NewSegment 50 60) 0 2, NewNoGoZone (NewSegment (241/4) (199/2)) 0 2]
              NewBoxTracker [0, 1, 2])
   \<and> Length (NewSegment (199/2) 100) = 1/2
   \<and> NewSegment (199/2) 100
     \<in> set (Assemble 1 1 100 (1/2)
              [NewNoGoZone (NewSegment 50 60) 0 2, NewNoGoZone (NewSegment (241/4) (199/2)) 0 2]
              NewBoxTracker [0, 1, 2])
   \<and> (0::real) < 1/4 \<and> Length (NewSegment 60 (241/4)) = 1/2 - 1/4
   \<and> NewSegment 60 (241/4)
     \<in> set (candidateGaps 1 1 100
              [NewNoGoZone (NewSegment 50 60) 0 2, NewNoGoZone (NewSegment (241/4) (199/2)) 0 2]
              NewBoxTracker [0, 1, 2])
   \<and> NewSegment 60 (241/4)
     \<notin> set (Assemble 1 1 100 (1/2)
              [NewNoGoZone (NewSegment 50 60) 0 2, NewNoGoZone (NewSegment (241/4) (199/2)) 0 2]
              NewBoxTracker [0, 1, 2])"
proof -
  have c: "candidateGaps 1 1 100
              [NewNoGoZone (NewSegment 50 60) 0 2, NewNoGoZone (NewSegment (241/4) (199/2)) 0 2]
              NewBoxTracker [0, 1, 2]
           = [NewSegment 1 50, NewSegment 60 (241/4), NewSegment (199/2) 100]"
    by (simp add: assemble_eval)
  have h1: "NewSegment (199/2) 100
     \<in> set (candidateGaps 1 1 100
              [NewNoGoZone (NewSegment 50 60) 0 2, NewNoGoZone (NewSegment (241/4) (199/2)) 0 2]
              NewBoxTracker [0, 1, 2])"
    unfolding c by simp
  have h2: "NewSegment 60 (241/4)
     \<in> set (candidateGaps 1 1 100
              [NewNoGoZone (NewSegment 50 60) 0 2, NewNoGoZone (NewSegment (241/4) (199/2)) 0 2]
              NewBoxTracker [0, 1, 2])"
    unfolding c by simp
  have l1: "Length (NewSegment (199/2) 100) = 1/2"
    and l2: "Length (NewSegment 60 (241/4)) = 1/2 - 1/4" and e: "(0::real) < 1/4"
    by (simp_all add: Length_def NewSegment_def)
  from h1 h2 l1 l2 e
    Assemble_threshold_filter[of "NewSegment (199/2) 100" 1 1 100 "1/2"
      "[NewNoGoZone (NewSegment 50 60) 0 2, NewNoGoZone (NewSegment (241/4) (199/2)) 0 2]"
      NewBoxTracker "[0, 1, 2]" "1/4" "NewSegment 60 (241/4)"]
  show ?thesis by blast
qed

section \<open>The interactions maker and the creator\<close>

subsection \<open>Evaluation on concrete inputs\<close>

lemmas maker_eval =
  ScanInteractionStatements_def buildActions_def statementActions_def
  interactionLabel_def interactionLine_def LifelineCentres_def
  selfLabel_def startFromBox_def startToBox_def endBox_def selfLines_def
  exampleMaker_def exampleGeom_def exampleSpacing_def
  exampleSelf_def exampleFull_def exampleStop_def
  NewMaker_def NewMakerDependencies_def refAt_def RowOfStrings_def AddLabel_def AddLine_def
  AddFilledPoly_def NewPrimitives_def HasABoxInProgress_def AddStartingAt_def TerminateAt_def
  NewBoxTracker_def setBoxes_def Let_def enumerate_eq_zip NewPoint_def NewNoGoZone_def
  NewSegment_def nonnegMeasurements_def numInProgress_def

lemmas creator_eval =
  exampleCreator_def exampleSizer_def exampleGeomH_def exampleGeom_def
  exampleSelf_def exampleFull_def exampleStop_def
  Creator_interactionLabel_def Creator_interactionLine_def selfInteractionLines_def
  potentiallyStartActivityBox_def potentiallyStartToBox_def potentiallyStartFromBox_def
  finalizeActivityBox_def Creator_endBox_def finalizeActivityBoxes_def
  graphicsForDrawingEvent_def finalizeFrame_def initFrameAndMakeTitleBox_def
  findTitleSegments_def rowOfLabels_def RegisterSpaceClaim_def
  mostRecent_def lifelineBoxes_inProgress_def terminateInProgressBoxAt_def startBoxAt_def
  NewLifelineBoxes_def refAt_def AddRect_def AddLabel_def AddLine_def AddFilledPoly_def
  NewPrimitives_def NewPoint_def Let_def enumerate_eq_zip nonnegSizer_def

subsection \<open>A scan that dispatches no action\<close>

lemma statementActions_none:
  "Keyword s \<notin> {Dash, Full, Self, Stop} \<Longrightarrow> statementActions g s = []"
  by (cases "Keyword s") (simp_all add: statementActions_def)

lemma buildActions_none:
  "\<forall>s\<in>set statements. Keyword s \<notin> {Dash, Full, Self, Stop}
   \<Longrightarrow> buildActions g statements = []"
  by (induction statements) (simp_all add: buildActions_def statementActions_none)

text \<open>C9. When no statement of the list is a Dash, Full, Self or Stop statement,
  \<^verbatim>\<open>ScanInteractionStatements\<close> returns the tidemark \<open>0\<close> whatever tidemark it was given,
  the maker's list of no-go zones, and no error; for a maker fresh from \<^verbatim>\<open>NewMaker\<close>
  that list is empty.\<close>

theorem scan_without_actions_returns_zero:
  assumes "\<forall>s\<in>set statements. Keyword s \<notin> {Dash, Full, Self, Stop}"
  shows "ScanInteractionStatements g mkr tidemark statements
           = Inr (0, Maker.noGoZones mkr, mkr)
       \<and> ScanInteractionStatements g (NewMaker d gm) tidemark statements
           = Inr (0, [], NewMaker d gm)"
  using buildActions_none[OF assms] by (simp add: ScanInteractionStatements_def NewMaker_def)

text \<open>The theorem for a title and a lifeline statement, scanned from the tidemark
  \<open>55\<close>.\<close>

theorem scan_without_actions_returns_zero_witness:
  "ScanInteractionStatements exampleGeom exampleMaker 55
     [\<lparr>Keyword = Title, ReferencedLifelines = [], LabelSegments = [''T'']\<rparr>,
      \<lparr>Keyword = Life, ReferencedLifelines = [], LabelSegments = [''A'']\<rparr>]
   = Inr (0, [], exampleMaker)"
proof -
  have h: "\<forall>s\<in>set [\<lparr>Keyword = Title, ReferencedLifelines = [], LabelSegments = [''T'']\<rparr>,
              \<lparr>Keyword = Life, ReferencedLifelines = [], LabelSegments = [''A'']\<rparr>].
      Keyword s \<notin> {Dash, Full, Self, Stop}" by simp
  have e: "Maker.noGoZones exampleMaker = []" by (simp add: exampleMaker_def NewMaker_def)
  from scan_without_actions_returns_zero[OF h, of exampleGeom exampleMaker 55] e
  show ?thesis by simp
qed

subsection \<open>Registration of no-go zones\<close>

lemma interactionLabel_zone:
  "interactionLabel g mkr t s = Inr (t', mkr') \<Longrightarrow>
     Maker.noGoZones mkr' = Maker.noGoZones mkr
        @ [NewNoGoZone (NewSegment t t') (ReferencedLifelines s ! 0) (ReferencedLifelines s ! 1)]"
  by (auto simp: interactionLabel_def refAt_def Let_def split: sum.splits if_splits prod.splits)

lemma interactionLine_zone:
  "interactionLine g mkr t s = Inr (t', mkr') \<Longrightarrow>
     Maker.noGoZones mkr' = Maker.noGoZones mkr
        @ [NewNoGoZone (NewSegment t t') (ReferencedLifelines s ! 0) (ReferencedLifelines s ! 1)]"
  by (auto simp: interactionLine_def refAt_def Let_def split: sum.splits if_splits prod.splits)

lemma selfLabel_zones:
  "selfLabel g mkr t s = Inr (t', mkr') \<Longrightarrow> Maker.noGoZones mkr' = Maker.noGoZones mkr"
  by (auto simp: selfLabel_def Let_def split: sum.splits)

lemma selfLines_zones:
  "selfLines g mkr t s = Inr (t', mkr') \<Longrightarrow> Maker.noGoZones mkr' = Maker.noGoZones mkr"
  by (auto simp: selfLines_def Let_def split: sum.splits)

lemma startFromBox_zones:
  "startFromBox mkr t s = Inr (t', mkr') \<Longrightarrow> Maker.noGoZones mkr' = Maker.noGoZones mkr"
  by (auto simp: startFromBox_def setBoxes_def Let_def split: sum.splits option.splits if_splits)

lemma scan_self_zones:
  assumes "Keyword s = Self" "ScanInteractionStatements g mkr t [s] = Inr (t', zs, mkr')"
  shows "zs = Maker.noGoZones mkr"
proof -
  from assms obtain t1 m1 t2 m2 t3 where
    a: "selfLabel g mkr t s = Inr (t1, m1)" and b: "startFromBox m1 t1 s = Inr (t2, m2)"
    and c: "selfLines g m2 t2 s = Inr (t3, mkr')" and z: "zs = Maker.noGoZones mkr'"
    by (auto simp: ScanInteractionStatements_def buildActions_def statementActions_def
        split: sum.splits if_splits)
  from selfLabel_zones[OF a] startFromBox_zones[OF b] selfLines_zones[OF c] z
  show ?thesis by simp
qed

lemma Creator_interactionLabel_claim:
  "Creator_interactionLabel s c = Inr c' \<Longrightarrow>
     ilZones c' = ilZones c
        @ [(ReferencedLifelines s ! 0, ReferencedLifelines s ! 1, tideMark c, tideMark c')]"
  by (auto simp: Creator_interactionLabel_def rowOfLabels_def RegisterSpaceClaim_def refAt_def
      Let_def split: sum.splits if_splits prod.splits)

lemma Creator_interactionLine_claim:
  "Creator_interactionLine g s c = Inr c' \<Longrightarrow>
     ilZones c' = ilZones c
        @ [(ReferencedLifelines s ! 0, ReferencedLifelines s ! 1, tideMark c, tideMark c')]"
  by (auto simp: Creator_interactionLine_def RegisterSpaceClaim_def refAt_def Let_def
      split: sum.splits if_splits prod.splits)

lemma selfInteractionLines_claim:
  "selfInteractionLines g s c = Inr c' \<Longrightarrow> ilZones c' = ilZones c"
  by (auto simp: selfInteractionLines_def rowOfLabels_def Let_def split: sum.splits prod.splits)

text \<open>The claim as stated fails for Self statements: scanning the single statement
  \<open>exampleSelf\<close> with a fresh maker succeeds and returns no zone at all.\<close>

theorem self_registers_no_zone_counterexample:
  "\<not> isl (ScanInteractionStatements exampleGeom exampleMaker 100 [exampleSelf])
   \<and> fst (snd (projr (ScanInteractionStatements exampleGeom exampleMaker 100 [exampleSelf])))
       = []"
  by (simp add: maker_eval)

text \<open>C5 (amended). The label and the line of a two-lane interaction each register one
  no-go zone, covering the band from the tidemark before the action to the tidemark
  after it and tagged with the source and the destination lifeline of the statement
  (in the interactions maker and, as a space claim, in the creator). The actions of a
  Self statement register no zone.\<close>

theorem interaction_zones_registered:
  "(interactionLabel g mkr t s = Inr (t', mkr') \<longrightarrow>
      Maker.noGoZones mkr' = Maker.noGoZones mkr
        @ [NewNoGoZone (NewSegment t t') (ReferencedLifelines s ! 0) (ReferencedLifelines s ! 1)])
   \<and> (interactionLine g mkr t s = Inr (t', mkr') \<longrightarrow>
      Maker.noGoZones mkr' = Maker.noGoZones mkr
        @ [NewNoGoZone (NewSegment t t') (ReferencedLifelines s ! 0) (ReferencedLifelines s ! 1)])
   \<and> (selfLabel g mkr t s = Inr (t', mkr') \<longrightarrow> Maker.noGoZones mkr' = Maker.noGoZones mkr)
   \<and> (selfLines g mkr t s = Inr (t', mkr') \<longrightarrow> Maker.noGoZones mkr' = Maker.noGoZones mkr)
   \<and> (Keyword s = Self \<and> ScanInteractionStatements g mkr t [s] = Inr (t', zs, mkr')
        \<longrightarrow> zs = Maker.noGoZones mkr)
   \<and> (Creator_interactionLabel s c = Inr c' \<longrightarrow>
      ilZones c' = ilZones c
        @ [(ReferencedLifelines s ! 0, ReferencedLifelines s ! 1, tideMark c, tideMark c')])
   \<and> (Creator_interactionLine g s c = Inr c' \<longrightarrow>
      ilZones c' = ilZones c
        @ [(ReferencedLifelines s ! 0, ReferencedLifelines s ! 1, tideMark c, tideMark c')])
   \<and> (selfInteractionLines g s c = Inr c' \<longrightarrow> ilZones c' = ilZones c)"
proof (intro conjI impI)
  assume "interactionLabel g mkr t s = Inr (t', mkr')"
  then show "Maker.noGoZones mkr' = Maker.noGoZones mkr
      @ [NewNoGoZone (NewSegment t t') (ReferencedLifelines s ! 0) (ReferencedLifelines s ! 1)]"
    by (rule interactionLabel_zone)
next
  assume "interactionLine g mkr t s = Inr (t', mkr')"
  then show "Maker.noGoZones mkr' = Maker.noGoZones mkr
      @ [NewNoGoZone (NewSegment t t') (ReferencedLifelines s ! 0) (ReferencedLifelines s ! 1)]"
    by (rule interactionLine_zone)
next
  assume "selfLabel g mkr t s = Inr (t', mkr')"
  then show "Maker.noGoZones mkr' = Maker.noGoZones mkr" by (rule selfLabel_zones)
next
  assume "selfLines g mkr t s = Inr (t', mkr')"
  then show "Maker.noGoZones mkr' = Maker.noGoZones mkr" by (rule selfLines_zones)
next
  assume "Keyword s = Self \<and> ScanInteractionStatements g mkr t [s] = Inr (t', zs, mkr')"
  then show "zs = Maker.noGoZones mkr" using scan_self_zones by blast
next
  assume "Creator_interactionLabel s c = Inr c'"
  then show "ilZones c' = ilZones c
      @ [(ReferencedLifelines s ! 0, ReferencedLifelines s ! 1, tideMark c, tideMark c')]"
    by (rule Creator_interactionLabel_claim)
next
  assume "Creator_interactionLine g s c = Inr c'"
  then show "ilZones c' = ilZones c
      @ [(ReferencedLifelines s ! 0, ReferencedLifelines s ! 1, tideMark c, tideMark c')]"
    by (rule Creator_interactionLine_claim)
next
  assume "selfInteractionLines g s c = Inr c'"
  then show "ilZones c' = ilZones c" by (rule selfInteractionLines_claim)
qed

text \<open>The theorem for the statements \<open>exampleFull\<close> (from lifeline \<open>0\<close> to lifeline
  \<open>2\<close>) and \<open>exampleSelf\<close>, at the tidemark \<open>100\<close>.\<close>

theorem interaction_zones_registered_witness:
  "Maker.noGoZones (snd (projr (interactionLabel exampleGeom exampleMaker 100 exampleFull)))
     = [NewNoGoZone (NewSegment 100 130) 0 2]
   \<and> Maker.noGoZones (snd (projr (interactionLine exampleGeom exampleMaker 100 exampleFull)))
     = [NewNoGoZone (NewSegment 100 110) 0 2]
   \<and> Maker.noGoZones (snd (projr (selfLabel exampleGeom exampleMaker 100 exampleSelf))) = []
   \<and> Maker.noGoZones (snd (projr (selfLines exampleGeom exampleMaker 100 exampleSelf))) = []
   \<and> fst (snd (projr (ScanInteractionStatements exampleGeom exampleMaker 100 [exampleSelf])))
     = []
   \<and> ilZones (projr (Creator_interactionLabel exampleFull exampleCreator))
     = [(0, 2, 100, 130)]
   \<and> ilZones (projr (Creator_interactionLine exampleGeom exampleFull exampleCreator))
     = [(0, 2, 100, 116)]
   \<and> ilZones (projr (selfInteractionLines exampleGeom exampleSelf exampleCreator)) = []"
proof -
  note reg = interaction_zones_registered
  have z: "Maker.noGoZones exampleMaker = []" "ilZones exampleCreator = []"
    "ReferencedLifelines exampleFull ! 0 = 0" "ReferencedLifelines exampleFull ! 1 = 2"
    "tideMark exampleCreator = 100" "Keyword exampleSelf = Self"
    by (simp_all add: exampleMaker_def NewMaker_def exampleCreator_def exampleFull_def
        exampleSelf_def)
  let ?a = "interactionLabel exampleGeom exampleMaker 100 exampleFull"
  have a: "?a = Inr (fst (projr ?a), snd (projr ?a))" "fst (projr ?a) = 130"
    by (simp_all add: maker_eval)
  have 1: "Maker.noGoZones (snd (projr ?a)) = [NewNoGoZone (NewSegment 100 130) 0 2]"
    using reg[where g = exampleGeom and mkr = exampleMaker and t = 100 and s = exampleFull
        and t' = "fst (projr ?a)" and mkr' = "snd (projr ?a)"] a z by simp
  let ?b = "interactionLine exampleGeom exampleMaker 100 exampleFull"
  have b: "?b = Inr (fst (projr ?b), snd (projr ?b))" "fst (projr ?b) = 110"
    by (simp_all add: maker_eval)
  have 2: "Maker.noGoZones (snd (projr ?b)) = [NewNoGoZone (NewSegment 100 110) 0 2]"
    using reg[where g = exampleGeom and mkr = exampleMaker and t = 100 and s = exampleFull
        and t' = "fst (projr ?b)" and mkr' = "snd (projr ?b)"] b z by simp
  let ?c = "selfLabel exampleGeom exampleMaker 100 exampleSelf"
  have c: "?c = Inr (fst (projr ?c), snd (projr ?c))"
    by (simp add: maker_eval)
  have 3: "Maker.noGoZones (snd (projr ?c)) = []"
    using reg[where g = exampleGeom and mkr = exampleMaker and t = 100 and s = exampleSelf
        and t' = "fst (projr ?c)" and mkr' = "snd (projr ?c)"] c z by simp
  let ?d = "selfLines exampleGeom exampleMaker 100 exampleSelf"
  have d: "?d = Inr (fst (projr ?d), snd (projr ?d))"
    by (simp add: maker_eval)
  have 4: "Maker.noGoZones (snd (projr ?d)) = []"
    using reg[where g = exampleGeom and mkr = exampleMaker and t = 100 and s = exampleSelf
        and t' = "fst (projr ?d)" and mkr' = "snd (projr ?d)"] d z by simp
  let ?e = "ScanInteractionStatements exampleGeom exampleMaker 100 [exampleSelf]"
  have e: "?e = Inr (fst (projr ?e), fst (snd (projr ?e)), snd (snd (projr ?e)))"
    by (simp add: maker_eval)
  have 5: "fst (snd (projr ?e)) = []"
    using reg[where g = exampleGeom and mkr = exampleMaker and t = 100 and s = exampleSelf
        and t' = "fst (projr ?e)" and zs = "fst (snd (projr ?e))"
        and mkr' = "snd (snd (projr ?e))"] e z by simp
  let ?f = "Creator_interactionLabel exampleFull exampleCreator"
  have f: "?f = Inr (projr ?f)" "tideMark (projr ?f) = 130"
    by (simp_all add: creator_eval)
  have 6: "ilZones (projr ?f) = [(0, 2, 100, 130)]"
    using reg[where s = exampleFull and c = exampleCreator and c' = "projr ?f"] f z by simp
  let ?g = "Creator_interactionLine exampleGeom exampleFull exampleCreator"
  have g: "?g = Inr (projr ?g)" "tideMark (projr ?g) = 116"
    by (simp_all add: creator_eval)
  have 7: "ilZones (projr ?g) = [(0, 2, 100, 116)]"
    using reg[where g = exampleGeom and s = exampleFull and c = exampleCreator
        and c' = "projr ?g"] g z by simp
  let ?h = "selfInteractionLines exampleGeom exampleSelf exampleCreator"
  have h: "?h = Inr (projr ?h)"
    by (simp add: creator_eval)
  have 8: "ilZones (projr ?h) = []"
    using reg[where g = exampleGeom and s = exampleSelf and c = exampleCreator
        and c' = "projr ?h"] h z by simp
  from 1 2 3 4 5 6 7 8 show ?thesis by (intro conjI)
qed

subsection \<open>The tidemark never decreases\<close>

lemma nonneg_setBoxes [simp]:
  "nonnegMeasurements (dependencies (setBoxes l bt mkr)) = nonnegMeasurements (dependencies mkr)"
  by (simp add: nonnegMeasurements_def setBoxes_def)

lemma interactionLabel_mono:
  "nonnegMeasurements (dependencies mkr) \<Longrightarrow> interactionLabel g mkr t s = Inr (t', mkr')
   \<Longrightarrow> t \<le> t' \<and> nonnegMeasurements (dependencies mkr')"
  by (auto simp: interactionLabel_def nonnegMeasurements_def Let_def
      split: sum.splits prod.splits)

lemma interactionLine_mono:
  "nonnegMeasurements (dependencies mkr) \<Longrightarrow> interactionLine g mkr t s = Inr (t', mkr')
   \<Longrightarrow> t \<le> t' \<and> nonnegMeasurements (dependencies mkr')"
  by (auto simp: interactionLine_def nonnegMeasurements_def Let_def
      split: sum.splits prod.splits)

lemma selfLabel_mono:
  "nonnegMeasurements (dependencies mkr) \<Longrightarrow> selfLabel g mkr t s = Inr (t', mkr')
   \<Longrightarrow> t \<le> t' \<and> nonnegMeasurements (dependencies mkr')"
  by (auto simp: selfLabel_def nonnegMeasurements_def Let_def
      split: sum.splits prod.splits)

lemma selfLines_mono:
  "nonnegMeasurements (dependencies mkr) \<Longrightarrow> selfLines g mkr t s = Inr (t', mkr')
   \<Longrightarrow> t \<le> t' \<and> nonnegMeasurements (dependencies mkr')"
  by (auto simp: selfLines_def nonnegMeasurements_def Let_def
      split: sum.splits prod.splits)

lemma startToBox_mono:
  "nonnegMeasurements (dependencies mkr) \<Longrightarrow> startToBox mkr t s = Inr (t', mkr')
   \<Longrightarrow> t \<le> t' \<and> nonnegMeasurements (dependencies mkr')"
  by (auto simp: startToBox_def Let_def split: sum.splits option.splits if_splits)

lemma startFromBox_mono:
  "nonnegMeasurements (dependencies mkr) \<Longrightarrow> startFromBox mkr t s = Inr (t', mkr')
   \<Longrightarrow> t \<le> t' \<and> nonnegMeasurements (dependencies mkr')"
  by (auto simp: startFromBox_def Let_def split: sum.splits option.splits if_splits)

lemma endBox_mono:
  "nonnegMeasurements (dependencies mkr) \<Longrightarrow> endBox mkr t s = Inr (t', mkr')
   \<Longrightarrow> t \<le> t' \<and> nonnegMeasurements (dependencies mkr')"
  by (auto simp: endBox_def Let_def nonnegMeasurements_def[of "dependencies mkr"]
      split: sum.splits option.splits if_splits)

lemma statementActions_mono:
  "a \<in> set (statementActions g s) \<Longrightarrow> nonnegMeasurements (dependencies mkr)
   \<Longrightarrow> fst a mkr t (snd a) = Inr (t', mkr')
   \<Longrightarrow> t \<le> t' \<and> nonnegMeasurements (dependencies mkr')"
  by (cases "Keyword s")
     (auto simp: statementActions_def
        dest: interactionLabel_mono interactionLine_mono selfLabel_mono selfLines_mono
              startToBox_mono startFromBox_mono endBox_mono)

lemma buildActions_mono:
  "a \<in> set (buildActions g statements) \<Longrightarrow> nonnegMeasurements (dependencies mkr)
   \<Longrightarrow> fst a mkr t (snd a) = Inr (t', mkr')
   \<Longrightarrow> t \<le> t' \<and> nonnegMeasurements (dependencies mkr')"
  by (auto simp: buildActions_def dest: statementActions_mono)

lemma runActions_mono:
  "set acts \<subseteq> set (buildActions g statements) \<Longrightarrow> nonnegMeasurements (dependencies mkr)
   \<Longrightarrow> runActions acts prev upd mkr = Inr (u, mkr') \<Longrightarrow> acts \<noteq> [] \<Longrightarrow> prev \<le> u"
proof (induction acts arbitrary: prev upd mkr)
  case Nil
  then show ?case by simp
next
  case (Cons a rest)
  from Cons.prems(3) obtain u1 m1 where
    step: "fst a mkr prev (snd a) = Inr (u1, m1)"
    and rest: "runActions rest u1 u1 m1 = Inr (u, mkr')"
    by (auto split: sum.splits if_splits)
  from Cons.prems(1) have "a \<in> set (buildActions g statements)" by simp
  from buildActions_mono[OF this Cons.prems(2) step]
  have le: "prev \<le> u1" and nn: "nonnegMeasurements (dependencies m1)" by simp_all
  show ?case
  proof (cases rest)
    case Nil
    with rest le show ?thesis by simp
  next
    case (Cons b bs)
    then have "u1 \<le> u" using Cons.IH[OF _ nn rest] Cons.prems(1) by simp
    with le show ?thesis by simp
  qed
qed

lemma scan_mono:
  assumes "nonnegMeasurements (dependencies mkr)" "buildActions g statements \<noteq> []"
    "ScanInteractionStatements g mkr t statements = Inr (t', zs, mkr')"
  shows "t \<le> t'"
proof -
  from assms(3) have "runActions (buildActions g statements) t 0 mkr = Inr (t', mkr')"
    by (auto simp: ScanInteractionStatements_def split: sum.splits)
  from runActions_mono[OF subset_refl assms(1) this assms(2)] show ?thesis .
qed

lemma rowOfLabels_fields [simp]:
  "tideMark (rowOfLabels x y j ls c) = tideMark c"
  "sizer (rowOfLabels x y j ls c) = sizer c"
  "fontHeight (rowOfLabels x y j ls c) = fontHeight c"
  "ilZones (rowOfLabels x y j ls c) = ilZones c"
  "frameMaker (rowOfLabels x y j ls c) = frameMaker c"
  by (simp_all add: rowOfLabels_def)

lemma Creator_interactionLabel_mono:
  "nonnegSizer c \<Longrightarrow> Creator_interactionLabel s c = Inr c'
   \<Longrightarrow> tideMark c \<le> tideMark c' \<and> nonnegSizer c'"
  by (auto simp: Creator_interactionLabel_def nonnegSizer_def Let_def
      split: sum.splits prod.splits)

lemma Creator_interactionLine_mono:
  "nonnegSizer c \<Longrightarrow> Creator_interactionLine g s c = Inr c'
   \<Longrightarrow> tideMark c \<le> tideMark c' \<and> nonnegSizer c'"
  by (auto simp: Creator_interactionLine_def nonnegSizer_def Let_def
      split: sum.splits prod.splits)

lemma selfInteractionLines_mono:
  "nonnegSizer c \<Longrightarrow> selfInteractionLines g s c = Inr c'
   \<Longrightarrow> tideMark c \<le> tideMark c' \<and> nonnegSizer c'"
  by (auto simp: selfInteractionLines_def nonnegSizer_def Let_def
      split: sum.splits prod.splits)

lemma potentiallyStartActivityBox_mono:
  "nonnegSizer c \<Longrightarrow> potentiallyStartActivityBox l d c = Inr c'
   \<Longrightarrow> tideMark c \<le> tideMark c' \<and> nonnegSizer c'"
  by (auto simp: potentiallyStartActivityBox_def nonnegSizer_def Let_def
      split: option.splits if_splits)

lemma finalizeActivityBox_mono:
  "nonnegSizer c \<Longrightarrow> tideMark c \<le> b \<Longrightarrow> finalizeActivityBox l b c = Inr c'
   \<Longrightarrow> tideMark c \<le> tideMark c' \<and> tideMark c' \<le> b \<and> nonnegSizer c'"
  by (auto simp: finalizeActivityBox_def nonnegSizer_def Let_def
      split: option.splits if_splits prod.splits)

lemma graphicsForDrawingEvent_mono:
  assumes "nonnegSizer c" "graphicsForDrawingEvent g evt s c = Inr c'"
  shows "tideMark c \<le> tideMark c' \<and> nonnegSizer c'"
proof (cases evt)
  case EndBox
  with assms show ?thesis
    using finalizeActivityBox_mono[of c "tideMark c" _ c']
    by (auto simp: graphicsForDrawingEvent_def Creator_endBox_def Let_def split: sum.splits)
next
  case InteractionLine
  with assms show ?thesis
    by (auto simp: graphicsForDrawingEvent_def dest: Creator_interactionLine_mono)
next
  case InteractionLabel
  with assms show ?thesis
    by (auto simp: graphicsForDrawingEvent_def dest: Creator_interactionLabel_mono)
next
  case SelfInteractionLines
  with assms show ?thesis
    by (auto simp: graphicsForDrawingEvent_def dest: selfInteractionLines_mono)
next
  case PotentiallyStartFromBox
  with assms show ?thesis
    by (auto simp: graphicsForDrawingEvent_def potentiallyStartFromBox_def Let_def
        split: sum.splits dest: potentiallyStartActivityBox_mono)
next
  case PotentiallyStartToBox
  with assms show ?thesis
    by (auto simp: graphicsForDrawingEvent_def potentiallyStartToBox_def Let_def
        split: sum.splits dest: potentiallyStartActivityBox_mono)
qed (use assms in \<open>auto simp: graphicsForDrawingEvent_def\<close>)

lemma statementEvents_mono:
  "nonnegSizer c \<Longrightarrow> statementEvents g evts s c = Inr c'
   \<Longrightarrow> tideMark c \<le> tideMark c' \<and> nonnegSizer c'"
proof (induction evts arbitrary: c)
  case Nil
  then show ?case by simp
next
  case (Cons e evts)
  from Cons.prems(2) obtain c1 where
    a: "graphicsForDrawingEvent g e s c = Inr c1" and b: "statementEvents g evts s c1 = Inr c'"
    by (auto split: sum.splits)
  from graphicsForDrawingEvent_mono[OF Cons.prems(1) a] Cons.IH[OF _ b] show ?case by auto
qed

lemma sequentialPassFrom_mono:
  "nonnegSizer c \<Longrightarrow> sequentialPassFrom g ss c = Inr c'
   \<Longrightarrow> tideMark c \<le> tideMark c' \<and> nonnegSizer c'"
proof (induction ss arbitrary: c)
  case Nil
  then show ?case by simp
next
  case (Cons s ss)
  from Cons.prems(2) obtain c1 where
    a: "statementEvents g (EventsRequired (Keyword s)) s c = Inr c1"
    and b: "sequentialPassFrom g ss c1 = Inr c'"
    by (auto split: sum.splits)
  from statementEvents_mono[OF Cons.prems(1) a] Cons.IH[OF _ b] show ?case by auto
qed

lemma finalizeEach_sizer:
  "finalizeEach ks b c = Inr c' \<Longrightarrow> sizer c' = sizer c"
proof (induction ks arbitrary: c)
  case Nil
  then show ?case by simp
next
  case (Cons k ks)
  from Cons.prems obtain c1 where
    a: "finalizeActivityBox k b c = Inr c1" and r: "finalizeEach ks b c1 = Inr c'"
    by (auto split: sum.splits)
  from a have "sizer c1 = sizer c"
    by (auto simp: finalizeActivityBox_def Let_def split: option.splits if_splits prod.splits)
  with Cons.IH[OF r] show ?case by simp
qed

lemma finalizeActivityBoxes_mono:
  assumes "nonnegSizer c" "finalizeActivityBoxes ks c = Inr c'"
  shows "tideMark c \<le> tideMark c'"
proof -
  let ?b = "tideMark c + ActivityBoxVerticalOverlap (sizer c)"
  from assms(2) obtain c1 where
    a: "finalizeEach ks ?b c = Inr c1"
    and c': "c' = c1\<lparr>tideMark := ?b + FinalizedActivityBoxesPadB (sizer c1)\<rparr>"
    by (auto simp: finalizeActivityBoxes_def Let_def split: sum.splits)
  from assms(1) have "tideMark c \<le> ?b" "0 \<le> FinalizedActivityBoxesPadB (sizer c)"
    by (simp_all add: nonnegSizer_def)
  with c' finalizeEach_sizer[OF a] show ?thesis by simp
qed

lemma finalizeFrame_mono: "nonnegSizer c \<Longrightarrow> tideMark c \<le> tideMark (finalizeFrame c)"
  by (simp add: finalizeFrame_def nonnegSizer_def Let_def)

text \<open>The claim as stated fails where a size is negative: nothing in the code checks
  the sizes that it adds to the tidemark, and with a font height of \<open>-20\<close> the label
  action of \<open>exampleFull\<close> takes the tidemark from \<open>100\<close> to \<open>90\<close>. It also fails
  for a statement list without interactions: the scan of a single lifeline statement
  from the tidemark \<open>55\<close> returns the tidemark \<open>0\<close>.\<close>

theorem tidemark_decreases_counterexample:
  "\<not> isl (interactionLabel exampleGeom
            (exampleMaker\<lparr>dependencies := (dependencies exampleMaker)\<lparr>fontHt := - 20\<rparr>\<rparr>)
            100 exampleFull)
   \<and> fst (projr (interactionLabel exampleGeom
            (exampleMaker\<lparr>dependencies := (dependencies exampleMaker)\<lparr>fontHt := - 20\<rparr>\<rparr>)
            100 exampleFull)) = 90
   \<and> (90::real) < 100
   \<and> ScanInteractionStatements exampleGeom exampleMaker 55
        [\<lparr>Keyword = Life, ReferencedLifelines = [], LabelSegments = [''A'']\<rparr>]
      = Inr (0, [], exampleMaker)
   \<and> (0::real) < 55"
  by (simp add: maker_eval)

text \<open>C4 (amended). With a font height and sizes that are not negative, the tidemark
  after every dispatched action that returns is at least the tidemark before it: for
  every action that \<^verbatim>\<open>ScanInteractionStatements\<close> builds for a statement list (and so for
  the whole scan, when it dispatches an action), for every drawing event of the
  creator's sequential pass (and so for the whole pass), and for the finalization
  steps \<^verbatim>\<open>finalizeActivityBox\<close> (called with a bottom that is not less than the tidemark,
  as its callers do), \<^verbatim>\<open>finalizeActivityBoxes\<close> and \<^verbatim>\<open>finalizeFrame\<close>.\<close>

theorem tidemark_never_decreases:
  "(nonnegMeasurements (dependencies mkr) \<and> a \<in> set (buildActions g statements)
      \<and> fst a mkr t (snd a) = Inr (t', mkr')
    \<longrightarrow> t \<le> t' \<and> nonnegMeasurements (dependencies mkr'))
   \<and> (nonnegMeasurements (dependencies mkr) \<and> buildActions g statements \<noteq> []
      \<and> ScanInteractionStatements g mkr t statements = Inr (t', zs, mkr')
    \<longrightarrow> t \<le> t')
   \<and> (nonnegSizer c \<and> graphicsForDrawingEvent g evt s c = Inr c'
    \<longrightarrow> tideMark c \<le> tideMark c' \<and> nonnegSizer c')
   \<and> (nonnegSizer c \<and> sequentialPass g c = Inr c' \<longrightarrow> tideMark c \<le> tideMark c')
   \<and> (nonnegSizer c \<and> tideMark c \<le> bottomY \<and> finalizeActivityBox l bottomY c = Inr c'
    \<longrightarrow> tideMark c \<le> tideMark c')
   \<and> (nonnegSizer c \<and> finalizeActivityBoxes keys c = Inr c' \<longrightarrow> tideMark c \<le> tideMark c')
   \<and> (nonnegSizer c \<longrightarrow> tideMark c \<le> tideMark (finalizeFrame c))"
proof -
  have 1: "nonnegMeasurements (dependencies mkr) \<and> a \<in> set (buildActions g statements)
      \<and> fst a mkr t (snd a) = Inr (t', mkr')
    \<longrightarrow> t \<le> t' \<and> nonnegMeasurements (dependencies mkr')"
    using buildActions_mono by blast
  have 2: "nonnegMeasurements (dependencies mkr) \<and> buildActions g statements \<noteq> []
      \<and> ScanInteractionStatements g mkr t statements = Inr (t', zs, mkr')
    \<longrightarrow> t \<le> t'"
    using scan_mono by blast
  have 3: "nonnegSizer c \<and> graphicsForDrawingEvent g evt s c = Inr c'
    \<longrightarrow> tideMark c \<le> tideMark c' \<and> nonnegSizer c'"
    using graphicsForDrawingEvent_mono by blast
  have 4: "nonnegSizer c \<and> sequentialPass g c = Inr c' \<longrightarrow> tideMark c \<le> tideMark c'"
    using sequentialPassFrom_mono[of c g "allStatements c" c']
    by (simp add: sequentialPass_def)
  have 5: "nonnegSizer c \<and> tideMark c \<le> bottomY \<and> finalizeActivityBox l bottomY c = Inr c'
    \<longrightarrow> tideMark c \<le> tideMark c'"
    using finalizeActivityBox_mono by blast
  have 6: "nonnegSizer c \<and> finalizeActivityBoxes keys c = Inr c'
    \<longrightarrow> tideMark c \<le> tideMark c'"
    using finalizeActivityBoxes_mono by blast
  have 7: "nonnegSizer c \<longrightarrow> tideMark c \<le> tideMark (finalizeFrame c)"
    using finalizeFrame_mono by blast
  show ?thesis by (intro conjI 1 2 3 4 5 6 7)
qed

text \<open>The theorem for the maker and the creator of the examples, whose sizes are
  positive: the last action of a Self statement and its whole scan from the tidemark
  \<open>100\<close>, the label event of \<open>exampleFull\<close>, the sequential pass, and the finalization
  of a box that was started at \<open>90\<close>.\<close>

theorem tidemark_never_decreases_witness:
  "100 \<le> fst (projr (selfLines exampleGeom exampleMaker 100 exampleSelf))
   \<and> 100 \<le> fst (projr (ScanInteractionStatements exampleGeom exampleMaker 100 [exampleSelf]))
   \<and> tideMark exampleCreator
       \<le> tideMark (projr (graphicsForDrawingEvent exampleGeom InteractionLabel exampleFull
                             exampleCreator))
   \<and> tideMark exampleCreator \<le> tideMark (projr (sequentialPass exampleGeom exampleCreator))
   \<and> tideMark (exampleCreator\<lparr>activityBoxes := [0 \<mapsto> startBoxAt 90 NewLifelineBoxes]\<rparr>)
       \<le> tideMark (projr (finalizeActivityBox 0 110
            (exampleCreator\<lparr>activityBoxes := [0 \<mapsto> startBoxAt 90 NewLifelineBoxes]\<rparr>)))
   \<and> tideMark (exampleCreator\<lparr>activityBoxes := [0 \<mapsto> startBoxAt 90 NewLifelineBoxes]\<rparr>)
       \<le> tideMark (projr (finalizeActivityBoxes [0]
            (exampleCreator\<lparr>activityBoxes := [0 \<mapsto> startBoxAt 90 NewLifelineBoxes]\<rparr>)))
   \<and> tideMark exampleCreator \<le> tideMark (finalizeFrame exampleCreator)"
proof -
  note mono = tidemark_never_decreases
  let ?c1 = "exampleCreator\<lparr>activityBoxes := [0 \<mapsto> startBoxAt 90 NewLifelineBoxes]\<rparr>"
  have nm: "nonnegMeasurements (dependencies exampleMaker)"
    by (simp add: maker_eval)
  have ns: "nonnegSizer exampleCreator" "nonnegSizer ?c1"
    by (simp_all add: creator_eval)
  have mem: "(selfLines exampleGeom, exampleSelf) \<in> set (buildActions exampleGeom [exampleSelf])"
    "buildActions exampleGeom [exampleSelf] \<noteq> []"
    by (simp_all add: buildActions_def statementActions_def exampleSelf_def)
  let ?a = "selfLines exampleGeom exampleMaker 100 exampleSelf"
  have a: "?a = Inr (fst (projr ?a), snd (projr ?a))"
    by (simp add: maker_eval)
  have 1: "100 \<le> fst (projr ?a)"
    using mono[where mkr = exampleMaker and a = "(selfLines exampleGeom, exampleSelf)"
        and g = exampleGeom and statements = "[exampleSelf]" and t = 100
        and t' = "fst (projr ?a)" and mkr' = "snd (projr ?a)"] nm mem a
    by simp
  let ?b = "ScanInteractionStatements exampleGeom exampleMaker 100 [exampleSelf]"
  have b: "?b = Inr (fst (projr ?b), fst (snd (projr ?b)), snd (snd (projr ?b)))"
    by (simp add: maker_eval)
  have 2: "100 \<le> fst (projr ?b)"
    using mono[where mkr = exampleMaker and g = exampleGeom and statements = "[exampleSelf]"
        and t = 100 and t' = "fst (projr ?b)" and zs = "fst (snd (projr ?b))"
        and mkr' = "snd (snd (projr ?b))"] nm mem b
    by simp
  let ?d = "graphicsForDrawingEvent exampleGeom InteractionLabel exampleFull exampleCreator"
  have d: "?d = Inr (projr ?d)"
    by (simp add: creator_eval)
  have 3: "tideMark exampleCreator \<le> tideMark (projr ?d)"
    using mono[where c = exampleCreator and g = exampleGeom and evt = InteractionLabel
        and s = exampleFull and c' = "projr ?d"] ns d
    by simp
  let ?e = "sequentialPass exampleGeom exampleCreator"
  have e: "?e = Inr (projr ?e)"
    by (simp add: sequentialPass_def EventsRequired_def creator_eval)
  have 4: "tideMark exampleCreator \<le> tideMark (projr ?e)"
    using mono[where c = exampleCreator and g = exampleGeom and c' = "projr ?e"] ns e
    by simp
  let ?f = "finalizeActivityBox 0 110 ?c1"
  have f: "?f = Inr (projr ?f)" "tideMark ?c1 \<le> 110"
    by (simp_all add: creator_eval)
  have 5: "tideMark ?c1 \<le> tideMark (projr ?f)"
    using mono[where c = ?c1 and l = 0 and bottomY = 110 and c' = "projr ?f"] ns f
    by simp
  let ?h = "finalizeActivityBoxes [0] ?c1"
  have h: "?h = Inr (projr ?h)"
    by (simp add: creator_eval)
  have 6: "tideMark ?c1 \<le> tideMark (projr ?h)"
    using mono[where c = ?c1 and keys = "[0]" and c' = "projr ?h"] ns h
    by simp
  have 7: "tideMark exampleCreator \<le> tideMark (finalizeFrame exampleCreator)"
    using mono[where c = exampleCreator] ns by simp
  from 1 2 3 4 5 6 7 show ?thesis by (intro conjI)
qed

subsection \<open>A stop without a box in progress\<close>

lemma TerminateAt_not_in_progress:
  "\<not> HasABoxInProgress bt \<Longrightarrow> TerminateAt y bt = Inl InvalidState"
  by (auto simp: TerminateAt_def HasABoxInProgress_def split: list.splits)

lemma TerminateAt_before_start:
  "HasABoxInProgress bt \<Longrightarrow> y < boxStart (last bt) \<Longrightarrow> TerminateAt y bt = Inl InvalidState"
  by (cases bt rule: rev_cases) (auto simp: TerminateAt_def HasABoxInProgress_def)

lemma endBox_propagates:
  assumes "refAt s 0 = Inr l" "boxes (dependencies mkr) l = Some bt" "TerminateAt t bt = Inl e"
  shows "endBox mkr t s = Inl (Wrapped ''boxes.TerminateAt'' e)"
  using assms by (simp add: endBox_def)

lemma runActions_append:
  "runActions (xs @ ys) prev upd mkr =
     (case runActions xs prev upd mkr of
        Inl e \<Rightarrow> Inl e
      | Inr (u, m) \<Rightarrow> runActions ys (if xs = [] then prev else u) u m)"
proof (induction xs arbitrary: prev upd mkr)
  case Nil
  then show ?case by simp
next
  case (Cons a xs)
  show ?case
  proof (cases "fst a mkr prev (snd a)")
    case (Inl e)
    then show ?thesis by simp
  next
    case (Inr r)
    obtain u m where r: "r = (u, m)" by (cases r)
    show ?thesis
    proof (cases "xs = []")
      case True
      with Inr r show ?thesis by simp
    next
      case False
      with Inr r Cons.IH[of u u m] show ?thesis by (simp split: sum.splits)
    qed
  qed
qed

lemma buildActions_append:
  "buildActions g (xs @ ys) = buildActions g xs @ buildActions g ys"
  by (simp add: buildActions_def)

lemma buildActions_stop:
  "Keyword s = Stop \<Longrightarrow> buildActions g (s # post) = (endBox, s) # buildActions g post"
  by (simp add: buildActions_def statementActions_def)

lemma Creator_endBox_not_in_progress:
  "refAt s 0 = Inr l \<Longrightarrow> activityBoxes c l = Some llb \<Longrightarrow> \<not> lifelineBoxes_inProgress llb
   \<Longrightarrow> Creator_endBox s c = Inr c"
  by (simp add: Creator_endBox_def finalizeActivityBox_def)

text \<open>The claim as stated fails on the monolithic creator: its box state has no error
  result. \<^verbatim>\<open>terminateInProgressBoxAt\<close> on a tracker without boxes returns it unchanged,
  and the Stop statement \<open>exampleStop\<close>, for a lifeline without a box in progress,
  leaves the creator as it was and reports nothing.\<close>

theorem terminate_without_box_silent_counterexample:
  "terminateInProgressBoxAt 100 NewLifelineBoxes = NewLifelineBoxes
   \<and> Creator_endBox exampleStop exampleCreator = Inr exampleCreator"
  by (simp add: creator_eval)

text \<open>C3 (amended). In the interactions maker, when the statements before a Stop
  statement have been processed and the tracker of the stopped lifeline has no box in
  progress, or has one whose start is greater than the current tidemark, \<^verbatim>\<open>TerminateAt\<close> fails
  with \<open>InvalidState\<close>, \<^verbatim>\<open>endBox\<close> returns that error wrapped, and
  \<^verbatim>\<open>ScanInteractionStatements\<close> returns it wrapped again, without processing the
  statements that follow. In the monolithic creator the same Stop statement, for a
  lifeline without a box in progress, changes nothing and reports no error.\<close>

theorem stop_without_box_in_progress:
  assumes stop: "Keyword s = Stop" and ref: "refAt s 0 = Inr l"
    and run: "runActions (buildActions g pre) t 0 mkr = Inr (u, m)"
    and bx: "boxes (dependencies m) l = Some bt"
    and bad: "\<not> HasABoxInProgress bt
              \<or> (if buildActions g pre = [] then t else u) < boxStart (last bt)"
  shows "TerminateAt (if buildActions g pre = [] then t else u) bt = Inl InvalidState
       \<and> endBox m (if buildActions g pre = [] then t else u) s
           = Inl (Wrapped ''boxes.TerminateAt'' InvalidState)
       \<and> ScanInteractionStatements g mkr t (pre @ s # post)
           = Inl (Wrapped ''actionFn'' (Wrapped ''boxes.TerminateAt'' InvalidState))
       \<and> (activityBoxes c l = Some llb \<and> \<not> lifelineBoxes_inProgress llb
            \<longrightarrow> Creator_endBox s c = Inr c)"
proof -
  let ?y = "if buildActions g pre = [] then t else u"
  have tfail: "TerminateAt ?y bt = Inl InvalidState"
    using bad TerminateAt_not_in_progress[of bt ?y] TerminateAt_before_start[of bt ?y]
    by blast
  have eb: "endBox m ?y s = Inl (Wrapped ''boxes.TerminateAt'' InvalidState)"
    by (rule endBox_propagates[OF ref bx tfail])
  have "runActions (buildActions g (pre @ s # post)) t 0 mkr
          = runActions ((endBox, s) # buildActions g post) ?y u m"
    unfolding buildActions_append runActions_append buildActions_stop[OF stop]
    using run by simp
  also have "\<dots> = Inl (Wrapped ''actionFn'' (Wrapped ''boxes.TerminateAt'' InvalidState))"
    using eb by simp
  finally have scan: "ScanInteractionStatements g mkr t (pre @ s # post)
           = Inl (Wrapped ''actionFn'' (Wrapped ''boxes.TerminateAt'' InvalidState))"
    by (simp add: ScanInteractionStatements_def)
  have old: "activityBoxes c l = Some llb \<and> \<not> lifelineBoxes_inProgress llb
            \<longrightarrow> Creator_endBox s c = Inr c"
    using Creator_endBox_not_in_progress[OF ref] by blast
  from tfail eb scan old show ?thesis by (intro conjI)
qed

text \<open>The theorem for a Stop statement that comes first, on a fresh maker (no box in
  progress), and on a maker whose box on lifeline \<open>0\<close> starts at \<open>150\<close>, after the
  tidemark \<open>100\<close> of the Stop statement.\<close>

theorem stop_without_box_in_progress_witness:
  "ScanInteractionStatements exampleGeom exampleMaker 100 ([] @ exampleStop # [exampleFull])
     = Inl (Wrapped ''actionFn'' (Wrapped ''boxes.TerminateAt'' InvalidState))
   \<and> ScanInteractionStatements exampleGeom
        (setBoxes 0 [\<lparr>boxStart = 150, boxEnd = None\<rparr>] exampleMaker) 100
        ([] @ exampleStop # [exampleFull])
     = Inl (Wrapped ''actionFn'' (Wrapped ''boxes.TerminateAt'' InvalidState))
   \<and> Creator_endBox exampleStop exampleCreator = Inr exampleCreator"
proof -
  let ?m2 = "setBoxes 0 [\<lparr>boxStart = 150, boxEnd = None\<rparr>] exampleMaker"
  have stop: "Keyword exampleStop = Stop" and ref: "refAt exampleStop 0 = Inr 0"
    by (simp_all add: exampleStop_def refAt_def)
  have run1: "runActions (buildActions exampleGeom []) 100 0 exampleMaker
                = Inr (0, exampleMaker)"
    and run2: "runActions (buildActions exampleGeom []) 100 0 ?m2 = Inr (0, ?m2)"
    by (simp_all add: buildActions_def)
  have bx1: "boxes (dependencies exampleMaker) 0 = Some NewBoxTracker"
    and bx2: "boxes (dependencies ?m2) 0 = Some [\<lparr>boxStart = 150, boxEnd = None\<rparr>]"
    by (simp_all add: maker_eval)
  have bad1: "\<not> HasABoxInProgress NewBoxTracker
      \<or> (if buildActions exampleGeom [] = [] then 100 else 0) < boxStart (last NewBoxTracker)"
    by (simp add: HasABoxInProgress_def NewBoxTracker_def)
  have bad2: "\<not> HasABoxInProgress [\<lparr>boxStart = 150, boxEnd = None\<rparr>]
      \<or> (if buildActions exampleGeom [] = [] then 100 else 0)
          < boxStart (last [\<lparr>boxStart = 150, boxEnd = None\<rparr>])"
    by (simp add: buildActions_def)
  have old: "activityBoxes exampleCreator 0 = Some NewLifelineBoxes"
    "\<not> lifelineBoxes_inProgress NewLifelineBoxes"
    by (simp_all add: creator_eval)
  from stop_without_box_in_progress[OF stop ref run1 bx1 bad1,
      of "[exampleFull]" exampleCreator NewLifelineBoxes]
    stop_without_box_in_progress[OF stop ref run2 bx2 bad2, of "[exampleFull]"] old
  show ?thesis by blast
qed

subsection \<open>Opening a box twice\<close>

lemma inProgress_startBoxAt: "lifelineBoxes_inProgress (startBoxAt y llb)"
  by (simp add: lifelineBoxes_inProgress_def mostRecent_def startBoxAt_def)

lemma count_inProgress_last:
  assumes "list_all (\<lambda>b. \<not> inProgress b) (butlast llb)" "lifelineBoxes_inProgress llb"
  shows "length (filter inProgress llb) = 1"
proof (cases llb rule: rev_cases)
  case Nil
  with assms(2) show ?thesis by (simp add: lifelineBoxes_inProgress_def mostRecent_def)
next
  case (snoc xs x)
  with assms have "inProgress x" "filter inProgress xs = []"
    by (auto simp: lifelineBoxes_inProgress_def mostRecent_def list_all_iff filter_empty_conv)
  with snoc show ?thesis by simp
qed

lemma butlast_startBoxAt:
  assumes "\<not> lifelineBoxes_inProgress llb" "list_all (\<lambda>b. \<not> inProgress b) (butlast llb)"
  shows "list_all (\<lambda>b. \<not> inProgress b) (butlast (startBoxAt y llb))"
proof -
  have "butlast (startBoxAt y llb) = llb" by (simp add: startBoxAt_def)
  moreover have "list_all (\<lambda>b. \<not> inProgress b) llb"
    using assms by (cases llb rule: rev_cases)
      (auto simp: lifelineBoxes_inProgress_def mostRecent_def)
  ultimately show ?thesis by simp
qed

lemma HasABoxInProgress_snoc [simp]: "HasABoxInProgress (bt @ [b]) = (boxEnd b = None)"
  by (simp add: HasABoxInProgress_def)

lemma numInProgress_last:
  assumes "numInProgress (butlast bt) = 0" "HasABoxInProgress bt"
  shows "numInProgress bt = 1"
proof (cases bt rule: rev_cases)
  case Nil
  with assms(2) show ?thesis by (simp add: HasABoxInProgress_def)
next
  case (snoc xs x)
  with assms show ?thesis by (simp add: numInProgress_def)
qed

text \<open>Every tracker that is built from an empty one through the operations of the
  model has all its boxes terminated, the most recent one at most excepted.\<close>

lemma earlier_terminated_lifelineBoxes:
  "list_all (\<lambda>b. \<not> inProgress b) (butlast NewLifelineBoxes)"
  "list_all (\<lambda>b. \<not> inProgress b) (butlast llb)
   \<Longrightarrow> list_all (\<lambda>b. \<not> inProgress b) (butlast (terminateInProgressBoxAt y llb))"
  by (simp_all add: NewLifelineBoxes_def terminateInProgressBoxAt_def mostRecent_def
      butlast_list_update)

lemma earlier_terminated_BoxTracker:
  "numInProgress (butlast NewBoxTracker) = 0"
  "numInProgress (butlast bt) = 0 \<Longrightarrow> AddStartingAt y bt = Inr bt'
   \<Longrightarrow> numInProgress (butlast bt') = 0"
  "numInProgress (butlast bt) = 0 \<Longrightarrow> TerminateAt y bt = Inr bt'
   \<Longrightarrow> numInProgress (butlast bt') = 0"
proof -
  show "numInProgress (butlast NewBoxTracker) = 0"
    by (simp add: NewBoxTracker_def numInProgress_def)
  show "numInProgress (butlast bt') = 0"
    if "numInProgress (butlast bt) = 0" "AddStartingAt y bt = Inr bt'"
    using that
    by (cases bt rule: rev_cases)
       (auto simp: AddStartingAt_def numInProgress_def butlast_append split: if_splits)
  show "numInProgress (butlast bt') = 0"
    if "numInProgress (butlast bt) = 0" "TerminateAt y bt = Inr bt'"
    using that
    by (cases bt rule: rev_cases)
       (auto simp: TerminateAt_def numInProgress_def butlast_append split: if_splits)
qed

lemma potentiallyStartActivityBox_twice:
  assumes "activityBoxes c l = Some llb" "list_all (\<lambda>b. \<not> inProgress b) (butlast llb)"
  shows "\<exists>c1 llb1. potentiallyStartActivityBox l d1 c = Inr c1
           \<and> potentiallyStartActivityBox l d2 c1 = Inr c1
           \<and> activityBoxes c1 l = Some llb1 \<and> length (filter inProgress llb1) = 1"
proof (cases "lifelineBoxes_inProgress llb")
  case True
  with assms count_inProgress_last[OF assms(2) True] show ?thesis
    by (simp add: potentiallyStartActivityBox_def)
next
  case False
  let ?llb1 = "startBoxAt (tideMark c - d1) llb"
  let ?c1 = "c\<lparr>activityBoxes := (activityBoxes c)(l \<mapsto> ?llb1)\<rparr>"
  have 1: "potentiallyStartActivityBox l d1 c = Inr ?c1"
    using assms(1) False by (simp add: potentiallyStartActivityBox_def Let_def)
  have 2: "potentiallyStartActivityBox l d2 ?c1 = Inr ?c1"
    by (simp add: potentiallyStartActivityBox_def inProgress_startBoxAt)
  have 3: "length (filter inProgress ?llb1) = 1"
    by (rule count_inProgress_last[OF butlast_startBoxAt[OF False assms(2)]
          inProgress_startBoxAt])
  from 1 2 3 show ?thesis by simp
qed

lemma startToBox_twice:
  assumes "refAt s 1 = Inr l" "boxes (dependencies mkr) l = Some bt"
    "numInProgress (butlast bt) = 0"
  shows "\<exists>m1 bt1. startToBox mkr t s = Inr (t, m1) \<and> startToBox m1 t2 s = Inr (t2, m1)
           \<and> boxes (dependencies m1) l = Some bt1 \<and> numInProgress bt1 = 1"
proof (cases "HasABoxInProgress bt")
  case True
  with assms numInProgress_last[OF assms(3) True] show ?thesis
    by (simp add: startToBox_def)
next
  case False
  let ?bt1 = "bt @ [\<lparr>boxStart = t, boxEnd = None\<rparr>]"
  let ?m1 = "setBoxes l ?bt1 mkr"
  have 1: "startToBox mkr t s = Inr (t, ?m1)"
    using assms(1,2) False by (simp add: startToBox_def AddStartingAt_def)
  have b: "boxes (dependencies ?m1) l = Some ?bt1" by (simp add: setBoxes_def)
  have 2: "startToBox ?m1 t2 s = Inr (t2, ?m1)"
    using assms(1) b by (simp add: startToBox_def)
  have 3: "numInProgress ?bt1 = 1"
    using assms(3) False by (cases bt rule: rev_cases) (auto simp: numInProgress_def)
  from 1 2 3 b show ?thesis by blast
qed

lemma startFromBox_twice:
  assumes "refAt s 0 = Inr l" "boxes (dependencies mkr) l = Some bt"
    "numInProgress (butlast bt) = 0"
  shows "\<exists>m1 bt1. startFromBox mkr t s = Inr (t, m1) \<and> startFromBox m1 t2 s = Inr (t2, m1)
           \<and> boxes (dependencies m1) l = Some bt1 \<and> numInProgress bt1 = 1"
proof (cases "HasABoxInProgress bt")
  case True
  with assms numInProgress_last[OF assms(3) True] show ?thesis
    by (simp add: startFromBox_def)
next
  case False
  let ?bt1 = "bt @ [\<lparr>boxStart = t - MakerDependencies.sizer (dependencies mkr)
                                     ''ActivityBoxVerticalOverlap'', boxEnd = None\<rparr>]"
  let ?m1 = "setBoxes l ?bt1 mkr"
  have 1: "startFromBox mkr t s = Inr (t, ?m1)"
    using assms(1,2) False by (simp add: startFromBox_def AddStartingAt_def)
  have b: "boxes (dependencies ?m1) l = Some ?bt1" by (simp add: setBoxes_def)
  have 2: "startFromBox ?m1 t2 s = Inr (t2, ?m1)"
    using assms(1) b by (simp add: startFromBox_def)
  have 3: "numInProgress ?bt1 = 1"
    using assms(3) False by (cases bt rule: rev_cases) (auto simp: numInProgress_def)
  from 1 2 3 b show ?thesis by blast
qed

text \<open>C8. On a lifeline whose earlier boxes are all terminated, invoking the
  operation that potentially opens a box twice in a row succeeds both times, the
  second invocation changes nothing, and the lifeline then has exactly one extent in
  progress: for \<^verbatim>\<open>potentiallyStartActivityBox\<close> of the creator, and for \<^verbatim>\<open>startToBox\<close>
  and \<^verbatim>\<open>startFromBox\<close> of the interactions maker.\<close>

theorem potentially_start_box_idempotent:
  "(activityBoxes c l = Some llb \<and> list_all (\<lambda>b. \<not> inProgress b) (butlast llb)
    \<longrightarrow> (\<exists>c1 llb1. potentiallyStartActivityBox l d1 c = Inr c1
           \<and> potentiallyStartActivityBox l d2 c1 = Inr c1
           \<and> activityBoxes c1 l = Some llb1 \<and> length (filter inProgress llb1) = 1))
   \<and> (refAt s 1 = Inr lTo \<and> boxes (dependencies mkr) lTo = Some btTo
        \<and> numInProgress (butlast btTo) = 0
    \<longrightarrow> (\<exists>m1 bt1. startToBox mkr t s = Inr (t, m1) \<and> startToBox m1 t2 s = Inr (t2, m1)
           \<and> boxes (dependencies m1) lTo = Some bt1 \<and> numInProgress bt1 = 1))
   \<and> (refAt s 0 = Inr lFrom \<and> boxes (dependencies mkr) lFrom = Some btFrom
        \<and> numInProgress (butlast btFrom) = 0
    \<longrightarrow> (\<exists>m1 bt1. startFromBox mkr t s = Inr (t, m1) \<and> startFromBox m1 t2 s = Inr (t2, m1)
           \<and> boxes (dependencies m1) lFrom = Some bt1 \<and> numInProgress bt1 = 1))"
proof -
  have 1: "activityBoxes c l = Some llb \<and> list_all (\<lambda>b. \<not> inProgress b) (butlast llb)
    \<longrightarrow> (\<exists>c1 llb1. potentiallyStartActivityBox l d1 c = Inr c1
           \<and> potentiallyStartActivityBox l d2 c1 = Inr c1
           \<and> activityBoxes c1 l = Some llb1 \<and> length (filter inProgress llb1) = 1)"
    using potentiallyStartActivityBox_twice by blast
  have 2: "refAt s 1 = Inr lTo \<and> boxes (dependencies mkr) lTo = Some btTo
        \<and> numInProgress (butlast btTo) = 0
    \<longrightarrow> (\<exists>m1 bt1. startToBox mkr t s = Inr (t, m1) \<and> startToBox m1 t2 s = Inr (t2, m1)
           \<and> boxes (dependencies m1) lTo = Some bt1 \<and> numInProgress bt1 = 1)"
    using startToBox_twice by blast
  have 3: "refAt s 0 = Inr lFrom \<and> boxes (dependencies mkr) lFrom = Some btFrom
        \<and> numInProgress (butlast btFrom) = 0
    \<longrightarrow> (\<exists>m1 bt1. startFromBox mkr t s = Inr (t, m1) \<and> startFromBox m1 t2 s = Inr (t2, m1)
           \<and> boxes (dependencies m1) lFrom = Some bt1 \<and> numInProgress bt1 = 1)"
    using startFromBox_twice by blast
  show ?thesis by (intro conjI 1 2 3)
qed

text \<open>The theorem for lifeline \<open>0\<close> of the example creator and for the statement
  \<open>exampleFull\<close>, from lifeline \<open>0\<close> to lifeline \<open>2\<close>, on the example maker.\<close>

theorem potentially_start_box_idempotent_witness:
  "(\<exists>c1 llb1. potentiallyStartActivityBox 0 10 exampleCreator = Inr c1
       \<and> potentiallyStartActivityBox 0 0 c1 = Inr c1
       \<and> activityBoxes c1 0 = Some llb1 \<and> length (filter inProgress llb1) = 1)
   \<and> (\<exists>m1 bt1. startToBox exampleMaker 100 exampleFull = Inr (100, m1)
       \<and> startToBox m1 130 exampleFull = Inr (130, m1)
       \<and> boxes (dependencies m1) 2 = Some bt1 \<and> numInProgress bt1 = 1)
   \<and> (\<exists>m1 bt1. startFromBox exampleMaker 100 exampleFull = Inr (100, m1)
       \<and> startFromBox m1 130 exampleFull = Inr (130, m1)
       \<and> boxes (dependencies m1) 0 = Some bt1 \<and> numInProgress bt1 = 1)"
proof -
  have old: "activityBoxes exampleCreator 0 = Some NewLifelineBoxes"
    "list_all (\<lambda>b. \<not> inProgress b) (butlast NewLifelineBoxes)"
    by (simp_all add: creator_eval)
  have new: "refAt exampleFull 1 = Inr 2" "refAt exampleFull 0 = Inr 0"
    "boxes (dependencies exampleMaker) 2 = Some NewBoxTracker"
    "boxes (dependencies exampleMaker) 0 = Some NewBoxTracker"
    "numInProgress (butlast NewBoxTracker) = 0"
    by (simp_all add: maker_eval)
  from potentially_start_box_idempotent[where c = exampleCreator and l = 0
      and llb = NewLifelineBoxes and ?d1.0 = 10 and ?d2.0 = 0
      and s = exampleFull and mkr = exampleMaker and lTo = 2 and btTo = NewBoxTracker
      and lFrom = 0 and btFrom = NewBoxTracker and t = 100 and ?t2.0 = 130] old new
  show ?thesis by simp
qed

subsection \<open>The frame title without a title statement\<close>

lemma findTitleSegmentsIn_none:
  "\<forall>s\<in>set ss. Keyword s \<noteq> Title \<Longrightarrow> findTitleSegmentsIn ss = []"
  by (induction ss) auto

text \<open>C10. When no statement is a Title statement, \<^verbatim>\<open>initFrameAndMakeTitleBox\<close> still
  draws the frame title box: it adds the single label line \<open>Unknown Title\<close> at the
  place of the title text, then the rectangle of the title box around one line of
  text, and advances the tidemark past the box.\<close>

theorem missing_title_default_label:
  assumes "\<forall>s\<in>set (allStatements c). Keyword s \<noteq> Title"
  shows "graphicsModel (initFrameAndMakeTitleBox c) =
           AddRect (FramePadLR (sizer c)) (tideMark c) (FrameTitleBoxWidth (sizer c))
             (tideMark c + FrameTitleTextPadT (sizer c) + 1 * fontHeight c
                + FrameTitleTextPadB (sizer c))
             (AddLabel ''Unknown Title'' (fontHeight c)
                (FramePadLR (sizer c) + FrameTitleTextPadL (sizer c))
                (tideMark c + FrameTitleTextPadT (sizer c)) Left Top (graphicsModel c))
       \<and> tideMark (initFrameAndMakeTitleBox c) =
           tideMark c + FrameTitleTextPadT (sizer c) + 1 * fontHeight c
             + FrameTitleTextPadB (sizer c) + FrameTitleRectPadB (sizer c)"
  using findTitleSegmentsIn_none[OF assms]
  by (simp add: initFrameAndMakeTitleBox_def findTitleSegments_def Let_def rowOfLabels_def
      enumerate_eq_zip)

text \<open>The theorem for the example creator, whose statements are a lifeline and a
  stop: the only label drawn is \<open>Unknown Title\<close>, and the tidemark moves from \<open>100\<close>
  to \<open>140\<close>.\<close>

theorem missing_title_default_label_witness:
  "Labels (graphicsModel (initFrameAndMakeTitleBox exampleCreator))
     = [\<lparr>TheString = ''Unknown Title'', FontHeight = 20, Anchor = \<lparr>X = 30, Y = 105\<rparr>,
         HJust = Left, VJust = Top\<rparr>]
   \<and> length (Lines (graphicsModel (initFrameAndMakeTitleBox exampleCreator))) = 4
   \<and> tideMark (initFrameAndMakeTitleBox exampleCreator) = 140"
proof -
  have h: "\<forall>s\<in>set (allStatements exampleCreator). Keyword s \<noteq> Title"
    by (simp add: exampleCreator_def)
  have v: "fontHeight exampleCreator = 20" "tideMark exampleCreator = 100"
    "sizer exampleCreator = exampleSizer" "graphicsModel exampleCreator = NewPrimitives"
    by (simp_all add: exampleCreator_def)
  from missing_title_default_label[OF h] v show ?thesis
    by (simp add: exampleSizer_def AddRect_def AddLabel_def AddLine_def NewPrimitives_def)
qed

section \<open>What a scan hands to the assembler\<close>




















subsection \<open>Merge correctness\<close>






end
